theory Spec2Isabelle
  imports Main
begin

section \<open>The e-mail channel of the notification delivery pipeline\<close>

text \<open>
  A shallow embedding of the class \<^verbatim>\<open>SendMessageEmail\<close> and of the functions
  \<^verbatim>\<open>createMailData\<close> and \<^verbatim>\<open>getReplyToAddress\<close>
  (apps/worker/src/app/workflow/services/workflow.worker.ts, lines 101-658; the line numbers
  below are those of that file).

  The pipeline talks to collaborators: repositories, the integration selector, the template
  compiler, the mail factory and the execution-log queue. What a collaborator answers is an
  input of the model (the record \<open>world\<close>); what the pipeline asks of a collaborator that
  changes something is an output of the model, a list of \<open>effect\<close>s in the order the code
  issues them. An exception is a value: \<open>execute\<close> returns \<open>Inl\<close> of the error it raises
  and \<open>Inr ()\<close> when it returns normally.

  Calls of the logger and of the error tracker are left out. The repository's
  \<^verbatim>\<open>create\<close> saves one entity and returns it, and its \<^verbatim>\<open>update\<close> applies an update
  body to the records that match a query. The pipeline has no call that deletes a record, so
  there is no effect for a deletion.
\<close>

subsection \<open>JavaScript values that the code tests for truthiness\<close>

text \<open>
  An optional string is \<open>string option\<close>: \<open>None\<close> is \<^verbatim>\<open>undefined\<close>. The empty
  string is falsy, as \<^verbatim>\<open>undefined\<close> is.
\<close>

definition truthy :: "string option \<Rightarrow> bool" where
  "truthy v = (case v of None \<Rightarrow> False | Some s \<Rightarrow> s \<noteq> [])"

text \<open>\<^verbatim>\<open>a || b\<close> on optional strings.\<close>

definition or_else :: "string option \<Rightarrow> string option \<Rightarrow> string option" where
  "or_else a b = (if truthy a then a else b)"

text \<open>
  An override object is a \<^verbatim>\<open>Record<string, any>\<close>. The model has two kinds of values
  for its keys: strings and lists of strings. Numbers, booleans, \<^verbatim>\<open>null\<close> and nested
  objects are not modelled. A key that is absent reads as \<^verbatim>\<open>undefined\<close>.
\<close>

datatype ovalue =
    OStr string
  | OList "string list"

type_synonym js_object = "string \<rightharpoonup> ovalue"

text \<open>
  Truthiness of a value read from an object: \<^verbatim>\<open>undefined\<close> and the empty string are
  falsy; every other string and every list (the empty one too) is truthy.
\<close>

definition truthy_value :: "ovalue option \<Rightarrow> bool" where
  "truthy_value v =
     (case v of
        None \<Rightarrow> False
      | Some (OStr s) \<Rightarrow> s \<noteq> []
      | Some (OList xs) \<Rightarrow> True)"

text \<open>
  \<^verbatim>\<open>integrationIdentifier\<close> and \<^verbatim>\<open>replyTo\<close> are read from the channel's overrides and
  cast to strings (\<^verbatim>\<open>as string\<close>); the model reads them where they are strings.
\<close>

definition get_str :: "js_object \<Rightarrow> string \<Rightarrow> string option" where
  "get_str obj k = (case obj k of Some (OStr s) \<Rightarrow> Some s | _ \<Rightarrow> None)"

text \<open>\<^verbatim>\<open>Object.assign({}, a, b)\<close>: the keys of \<open>a\<close>, then the keys of \<open>b\<close> written over them.\<close>

definition object_assign :: "js_object \<Rightarrow> js_object \<Rightarrow> js_object" where
  "object_assign a b = (Map.empty ++ a) ++ b"

subsection \<open>Entities\<close>

record subscriber =
  sub_subscriberId :: string
  sub_email :: "string option"

record credentials =
  cred_from :: "string option"
  cred_senderName :: "string option"

record integration =
  int_providerId :: string
  int_credentials :: credentials

record dns_settings =
  dns_mxRecordConfigured :: "bool option"
  dns_inboundParseDomain :: "string option"

record environment =
  env_id :: string
  env_dns :: "dns_settings option"

record attachment =
  att_file :: string
  att_mime :: string
  att_name :: string
  att_channels :: "string list option"

record message_template =
  tpl_id :: string
  tpl_senderName :: "string option"
  tpl_subject :: "string option"
  tpl_preheader :: "string option"
  tpl_content :: string
  tpl_layoutId :: "string option"
  tpl_contentType :: "string option"

record reply_callback =
  rc_active :: "bool option"
  rc_url :: "string option"

record notification_step =
  step_template :: "message_template option"
  step_replyCallback :: "reply_callback option"

record job =
  job_id :: string
  job_tenant :: "string option"
  job_actorId :: "string option"

text \<open>
  The user payload of a trigger: the two keys the pipeline reads, and the rest of its keys.
\<close>

record user_payload =
  pl_email :: "string option"
  pl_attachments :: "attachment list option"
  pl_data :: "(string \<times> string) list"

text \<open>
  \<^verbatim>\<open>command.overrides\<close>: the layout name, and one override object per scope
  (\<^verbatim>\<open>overrides.email\<close> for the channel, \<^verbatim>\<open>overrides[providerId]\<close> for a provider).
\<close>

record overrides =
  ov_layoutIdentifier :: "string option"
  ov_scoped :: "string \<rightharpoonup> js_object"

record send_message_command =
  cmd_identifier :: string
  cmd_transactionId :: string
  cmd_organizationId :: string
  cmd_environmentId :: string
  cmd_userId :: string
  cmd_subscriberId :: string
  cmd__subscriberId :: string
  cmd_notificationId :: string
  cmd__templateId :: string
  cmd_jobId :: string
  cmd_step :: "notification_step option"
  cmd_payload :: user_payload
  cmd_overrides :: overrides
  cmd_events :: "string list option"
  cmd_job :: job

subsection \<open>The uniform provider message and \<^verbatim>\<open>createMailData\<close>\<close>

datatype recipients = ToString string | ToArray "string list"

record notification_details =
  nd_transactionId :: string
  nd_workflowIdentifier :: string
  nd_subscriberId :: string

text \<open>The payload handed to the template compiler (lines 233-251 of the source).\<close>

record step_variables =
  sv_digest :: bool
  sv_events :: "string list option"
  sv_total_count :: "nat option"
  sv_reply_to_address :: "string option"

record compile_variables =
  cv_payload :: user_payload
  cv_step :: step_variables
  cv_tenant :: "string option"
  cv_actor :: "subscriber option"
  cv_subscriber :: subscriber

record template_payload =
  tp_senderName :: string
  tp_subject :: string
  tp_preheader :: "string option"
  tp_content :: string
  tp_layoutId :: "string option"
  tp_contentType :: string
  tp_payload :: compile_variables

text \<open>
  \<^verbatim>\<open>customData\<close> of a mail: the empty object \<^verbatim>\<open>{}\<close>, or the value that the overrides
  supplied.
\<close>

datatype custom_data = EmptyObject | Supplied ovalue

record email_options =
  mail_to :: recipients
  mail_subject :: string
  mail_html :: string
  mail_from :: "ovalue option"
  mail_text :: "ovalue option"
  mail_attachments :: "attachment list option"
  mail_id :: "string option"
  mail_replyTo :: "string option"
  mail_cc :: "ovalue option"
  mail_bcc :: "ovalue option"
  mail_payloadDetails :: "template_payload option"
  mail_notificationDetails :: "notification_details option"
  mail_ipPoolName :: "ovalue option"
  mail_customData :: "custom_data option"

text \<open>
  \<^verbatim>\<open>(prev, current) => (prev.includes(current) ? prev : [...prev, current])\<close>
\<close>

definition filterDuplicate :: "string list \<Rightarrow> string \<Rightarrow> string list" where
  "filterDuplicate prev current = (if current \<in> set prev then prev else prev @ [current])"

text \<open>
  \<^verbatim>\<open>...(overrides?.to || [])\<close>: the elements that the spread of the override's
  \<^verbatim>\<open>to\<close> adds. A list gives its elements and a string its characters; a falsy value
  (\<^verbatim>\<open>undefined\<close>, the empty string) gives way to \<^verbatim>\<open>[]\<close> and adds nothing.
\<close>

definition spread_recipients :: "ovalue option \<Rightarrow> string list" where
  "spread_recipients v =
     (case v of
        None \<Rightarrow> []
      | Some (OList xs) \<Rightarrow> xs
      | Some (OStr s) \<Rightarrow> map (\<lambda>ch. [ch]) s)"

text \<open>\<^verbatim>\<open>a || d\<close> on values read from an object.\<close>

definition value_or :: "ovalue option \<Rightarrow> ovalue option \<Rightarrow> ovalue option" where
  "value_or a d = (if truthy_value a then a else d)"

text \<open>
  \<^verbatim>\<open>createMailData\<close> (lines 633-651). \<^verbatim>\<open>to.reduce(filterDuplicate, [])\<close> is a left
  fold from the empty list. The other fields take the override's value as it is:
  \<^verbatim>\<open>text\<close> whatever it is, \<^verbatim>\<open>from\<close>, \<^verbatim>\<open>cc\<close>, \<^verbatim>\<open>bcc\<close> and
  \<^verbatim>\<open>customData\<close> when it is truthy. The spread of \<^verbatim>\<open>ipPoolName\<close> writes the key
  only when the override is truthy, and otherwise leaves what \<^verbatim>\<open>...options\<close> put there.
\<close>

definition createMailData :: "email_options \<Rightarrow> js_object \<Rightarrow> email_options" where
  "createMailData options ovr =
     (let to0 = (case mail_to options of ToArray xs \<Rightarrow> xs | ToString s \<Rightarrow> [s]);
          to1 = to0 @ spread_recipients (ovr ''to'');
          to2 = foldl filterDuplicate [] to1
      in options
           \<lparr> mail_to := ToArray to2,
             mail_from := value_or (ovr ''from'') (mail_from options),
             mail_text := ovr ''text'',
             mail_cc := value_or (ovr ''cc'') (Some (OList [])),
             mail_bcc := value_or (ovr ''bcc'') (Some (OList [])),
             mail_ipPoolName :=
               (if truthy_value (ovr ''ipPoolName'') then ovr ''ipPoolName''
                else mail_ipPoolName options),
             mail_customData :=
               Some (case ovr ''customData'' of
                       None \<Rightarrow> EmptyObject
                     | Some v \<Rightarrow> if truthy_value (Some v) then Supplied v else EmptyObject) \<rparr>)"

text \<open>The recipients of a message as a list, whichever way they are stored.\<close>

definition recipient_list :: "recipients \<Rightarrow> string list" where
  "recipient_list r = (case r of ToArray xs \<Rightarrow> xs | ToString s \<Rightarrow> [s])"

text \<open>
  The specification's words for the recipients: duplicates removed, first-seen order
  preserved. The first element stays, and its later copies are dropped from the rest.
\<close>

fun dedup_first_seen :: "string list \<Rightarrow> string list" where
  "dedup_first_seen [] = []"
| "dedup_first_seen (x # xs) = x # dedup_first_seen (filter (\<lambda>y. y \<noteq> x) xs)"

subsection \<open>\<^verbatim>\<open>getReplyToAddress\<close>\<close>

definition getReplyToAddress :: "string \<Rightarrow> string \<Rightarrow> string \<Rightarrow> string" where
  "getReplyToAddress transactionId environmentId inboundParseDomain =
     (let userNamePrefix = ''parse'';
          userNameDelimiter = ''-nv-e=''
      in userNamePrefix @ ''+'' @ transactionId @ userNameDelimiter @ environmentId
           @ ''@'' @ inboundParseDomain)"

subsection \<open>Enumerations\<close>

text \<open>
  The enumerations are declared outside the given sources; the model has the members that
  the pipeline names.
\<close>

datatype channel_type = EMAIL

datatype detail_enum =
    LIMIT_PASSED_NOVU_INTEGRATION
  | SUBSCRIBER_NO_ACTIVE_INTEGRATION
  | MESSAGE_CREATED
  | REPLY_CALLBACK_MISSING_REPLAY_CALLBACK_URL
  | REPLY_CALLBACK_NOT_CONFIGURATION
  | REPLY_CALLBACK_MISSING_MX_RECORD_CONFIGURATION
  | REPLY_CALLBACK_MISSING_MX_ROUTE_DOMAIN_CONFIGURATION
  | SUBSCRIBER_NO_CHANNEL_DETAILS
  | MESSAGE_SENT
  | PROVIDER_ERROR
  | LAYOUT_NOT_FOUND

datatype execution_source = INTERNAL

datatype execution_status = PENDING | SUCCESS | FAILED | WARNING

datatype log_code =
    SUBSCRIBER_MISSING_EMAIL
  | MISSING_EMAIL_INTEGRATION
  | MAIL_PROVIDER_DELIVERY_ERROR

text \<open>
  \<^verbatim>\<open>EmailProviderIdEnum.EmailWebhook\<close>, a constant of the shared package.
\<close>

definition EmailWebhook :: string where
  "EmailWebhook = ''email-webhook''"

subsection \<open>Errors, audit entries and effects\<close>

datatype error =
    PlatformException string
  | TypeError string
  | CollaboratorError string

record send_response =
  sr_id :: "string option"
  sr_date :: "string option"

text \<open>What \<^verbatim>\<open>JSON.stringify\<close> is applied to for the \<^verbatim>\<open>raw\<close> field of an entry.\<close>

datatype raw_detail =
    RawMessage string
  | RawIntegrationIdentifier string
  | RawLayoutIdentifier string
  | RawPayload template_payload
  | RawResult send_response
  | RawError string

text \<open>
  One entry handed to \<^verbatim>\<open>executionLogQueueService.add\<close>. The fresh metadata
  (\<^verbatim>\<open>getExecutionLogMetadata\<close>) is not modelled; \<open>ed_job\<close> stands for
  \<^verbatim>\<open>getDetailsFromJob(command.job)\<close>.
\<close>

record execution_detail =
  ed_job :: job
  ed_messageId :: "string option"
  ed_detail :: detail_enum
  ed_source :: execution_source
  ed_status :: execution_status
  ed_isTest :: bool
  ed_isRetry :: bool
  ed_raw :: "raw_detail option"

record message_data =
  msg_notificationId :: string
  msg_environmentId :: string
  msg_organizationId :: string
  msg_subscriberId :: string
  msg_templateId :: string
  msg_messageTemplateId :: string
  msg_subject :: string
  msg_channel :: channel_type
  msg_transactionId :: string
  msg_email :: "string option"
  msg_providerId :: string
  msg_payload :: user_payload
  msg_overrides :: js_object
  msg_templateIdentifier :: string
  msg_jobId :: string

text \<open>The entity that \<^verbatim>\<open>messageRepository.create\<close> returns: the data and its identifier.\<close>

record message = message_data +
  msg_id :: string

record compile_command =
  cc_environmentId :: string
  cc_organizationId :: string
  cc_userId :: string
  cc_payload :: template_payload

record message_query =
  q_id :: string
  q_environmentId :: string

text \<open>
  What the pipeline asks of its collaborators, in the order it asks. A repository update
  carries its query and the fields of its \<^verbatim>\<open>$set\<close>. \<open>SendErrorStatus\<close>,
  \<open>SendErrorHandlebars\<close>, \<open>HandleTenantExecution\<close> and
  \<open>SendSelectedIntegrationExecution\<close> are calls of helpers of the base class, whose code
  is outside the given sources: the model records the call and nothing of what the helper
  does. \<open>CompileEmailTemplate\<close> is the call of the template compiler, and \<open>MailSend\<close> the
  call of the provider handler's \<^verbatim>\<open>send\<close> together with what it answered.
\<close>

datatype effect =
    MessageCreate message_data
  | MessageUpdate message_query "(string \<times> string) list"
  | ExecutionLogAdd execution_detail string
  | SendErrorStatus string string string string log_code "string option"
  | SendErrorHandlebars job string
  | HandleTenantExecution job
  | SendSelectedIntegrationExecution job integration
  | CompileEmailTemplate compile_command
  | MailSend integration email_options "string + send_response"

subsection \<open>The collaborators' answers\<close>

record select_integration_command =
  sic_organizationId :: string
  sic_environmentId :: string
  sic_channelType :: channel_type
  sic_userId :: string
  sic_identifier :: "string option"
  sic_tenant :: "string option"

record compiled_template =
  ct_html :: string
  ct_content :: string
  ct_subject :: string
  ct_senderName :: "string option"

text \<open>
  The answers of the collaborators. A collaborator that the source wraps in
  \<^verbatim>\<open>try\<close> may raise (\<open>Inl\<close> of the error's message): integration selection, template
  compilation, CSS inlining and the provider's send. The handler lookup of the mail factory
  may raise too, outside any \<^verbatim>\<open>try\<close>. Repository writes and additions to the
  execution-log queue are taken to succeed.
\<close>

record world =
  w_subscribers :: "string \<Rightarrow> string \<Rightarrow> subscriber option"
  w_getIntegration :: "select_integration_command \<Rightarrow> string + integration option"
  w_layouts :: "string \<Rightarrow> string \<Rightarrow> string option"
  w_environments :: "string \<Rightarrow> environment option"
  w_handleTenantExecution :: "job \<Rightarrow> string option"
  w_storeContent :: bool
  w_new_message_id :: "message_data \<Rightarrow> string"
  w_compile :: "compile_command \<Rightarrow> string + compiled_template"
  w_inlineCss :: "string \<Rightarrow> string + string"
  w_getHandler ::
    "integration \<Rightarrow> ovalue option \<Rightarrow> string + (email_options \<Rightarrow> string + send_response)"

subsection \<open>Audit entries\<close>

text \<open>
  \<^verbatim>\<open>CreateExecutionDetailsCommand.create\<close> with the fields every call of the pipeline
  passes alike: the job's details, the source \<^verbatim>\<open>INTERNAL\<close>, and \<^verbatim>\<open>isTest\<close> and
  \<^verbatim>\<open>isRetry\<close> false.
\<close>

definition create_details ::
  "send_message_command \<Rightarrow> string option \<Rightarrow> detail_enum \<Rightarrow> execution_status
     \<Rightarrow> raw_detail option \<Rightarrow> execution_detail" where
  "create_details command messageId detail status raw =
     \<lparr> ed_job = cmd_job command, ed_messageId = messageId, ed_detail = detail,
       ed_source = INTERNAL, ed_status = status, ed_isTest = False, ed_isRetry = False,
       ed_raw = raw \<rparr>"

text \<open>\<^verbatim>\<open>await this.executionLogQueueService.add(metadata._id, entry, command.organizationId)\<close>\<close>

definition log_add ::
  "send_message_command \<Rightarrow> string option \<Rightarrow> detail_enum \<Rightarrow> execution_status
     \<Rightarrow> raw_detail option \<Rightarrow> effect" where
  "log_add command messageId detail status raw =
     ExecutionLogAdd (create_details command messageId detail status raw)
       (cmd_organizationId command)"

subsection \<open>\<^verbatim>\<open>getOverrideLayoutId\<close> (lines 586-619)\<close>

definition getOverrideLayoutId ::
  "world \<Rightarrow> send_message_command \<Rightarrow> effect list \<times> string option" where
  "getOverrideLayoutId w command =
     (let overrideLayoutIdentifier = ov_layoutIdentifier (cmd_overrides command)
      in case overrideLayoutIdentifier of
           None \<Rightarrow> ([], None)
         | Some ident \<Rightarrow>
             if truthy overrideLayoutIdentifier then
               (case w_layouts w (cmd_environmentId command) ident of
                  None \<Rightarrow>
                    ([log_add command None LAYOUT_NOT_FOUND FAILED
                        (Some (RawLayoutIdentifier ident))], None)
                | Some layoutOverride \<Rightarrow> ([], Some layoutOverride))
             else ([], None))"

subsection \<open>\<^verbatim>\<open>getReplyTo\<close> (lines 384-438)\<close>

text \<open>
  \<^verbatim>\<open>command.step.replyCallback?.url\<close>: the step is dereferenced without a guard,
  \<^verbatim>\<open>replyCallback\<close> with one.
\<close>

definition reply_callback_url :: "notification_step \<Rightarrow> string option" where
  "reply_callback_url st =
     (case step_replyCallback st of None \<Rightarrow> None | Some rc \<Rightarrow> rc_url rc)"

text \<open>\<^verbatim>\<open>environment.dns?.mxRecordConfigured\<close> as a condition.\<close>

definition mx_configured :: "environment \<Rightarrow> bool" where
  "mx_configured environment =
     (case env_dns environment of
        None \<Rightarrow> False
      | Some dns \<Rightarrow> dns_mxRecordConfigured dns = Some True)"

text \<open>\<^verbatim>\<open>environment.dns?.inboundParseDomain\<close>\<close>

definition inbound_parse_domain :: "environment \<Rightarrow> string option" where
  "inbound_parse_domain environment =
     (case env_dns environment of None \<Rightarrow> None | Some dns \<Rightarrow> dns_inboundParseDomain dns)"

text \<open>The code of the warning, lines 413-418.\<close>

definition reply_warning_detail :: "environment \<Rightarrow> detail_enum" where
  "reply_warning_detail environment =
     (if \<not> mx_configured environment \<and> \<not> truthy (inbound_parse_domain environment)
      then REPLY_CALLBACK_NOT_CONFIGURATION
      else if \<not> mx_configured environment
      then REPLY_CALLBACK_MISSING_MX_RECORD_CONFIGURATION
      else REPLY_CALLBACK_MISSING_MX_ROUTE_DOMAIN_CONFIGURATION)"

definition getReplyTo ::
  "world \<Rightarrow> send_message_command \<Rightarrow> string \<Rightarrow> effect list \<times> (error + string option)" where
  "getReplyTo w command messageId =
     (case cmd_step command of
        None \<Rightarrow> ([], Inl (TypeError ''Cannot read properties of undefined''))
      | Some st \<Rightarrow>
          if \<not> truthy (reply_callback_url st) then
            ([log_add command (Some messageId) REPLY_CALLBACK_MISSING_REPLAY_CALLBACK_URL
                WARNING None], Inr None)
          else
            (case w_environments w (cmd_environmentId command) of
               None \<Rightarrow>
                 ([], Inl (PlatformException
                    (''Environment '' @ cmd_environmentId command @ '' is not found'')))
             | Some environment \<Rightarrow>
                 (let mx = mx_configured environment;
                      domain = inbound_parse_domain environment;
                      detailEnum = reply_warning_detail environment;
                      warning = ([log_add command (Some messageId) detailEnum WARNING None],
                                 Inr None)
                  in case domain of
                       None \<Rightarrow> warning
                     | Some d \<Rightarrow>
                         if mx \<and> truthy domain then
                           ([], Inr (Some (getReplyToAddress (cmd_transactionId command)
                                             (env_id environment) d)))
                         else warning)))"

subsection \<open>\<^verbatim>\<open>sendErrors\<close> (lines 440-506)\<close>

definition sendErrors ::
  "string option \<Rightarrow> integration option \<Rightarrow> message \<Rightarrow> send_message_command \<Rightarrow> effect list" where
  "sendErrors email integ msg command =
     (let errorMessage = ''Subscriber does not have an'';
          status = ''warning'';
          errorId = ''mail_unexpected_error''
      in if \<not> truthy email then
           [SendErrorStatus (msg_id msg) status errorId (errorMessage @ '' email address'')
              SUBSCRIBER_MISSING_EMAIL None,
            log_add command (Some (msg_id msg)) SUBSCRIBER_NO_CHANNEL_DETAILS FAILED None]
         else if integ = None then
           [SendErrorStatus (msg_id msg) status errorId
              (errorMessage @ '' active email integration not found'')
              MISSING_EMAIL_INTEGRATION None,
            log_add command (Some (msg_id msg)) SUBSCRIBER_NO_ACTIVE_INTEGRATION FAILED None]
         else [])"

subsection \<open>\<^verbatim>\<open>buildFactoryIntegration\<close> and \<^verbatim>\<open>sendMessage\<close> (lines 508-630)\<close>

definition buildFactoryIntegration :: "integration \<Rightarrow> string option \<Rightarrow> integration" where
  "buildFactoryIntegration integ senderName =
     integ \<lparr> int_credentials :=
               (int_credentials integ)
                 \<lparr> cred_senderName :=
                     (if truthy senderName then senderName
                      else cred_senderName (int_credentials integ)) \<rparr> \<rparr>"

text \<open>
  The handler lookup is outside the \<^verbatim>\<open>try\<close>. Inside it are the send, the
  \<^verbatim>\<open>SUCCESS\<close> entry and, when the result has a truthy \<^verbatim>\<open>id\<close>, the update of the
  record's \<^verbatim>\<open>identifier\<close>.
\<close>

definition sendMessage ::
  "world \<Rightarrow> integration \<Rightarrow> email_options \<Rightarrow> message \<Rightarrow> send_message_command
     \<Rightarrow> string option \<Rightarrow> effect list \<times> (error + unit)" where
  "sendMessage w integ mailData msg command senderName =
     (let factoryIntegration = buildFactoryIntegration integ senderName
      in case w_getHandler w factoryIntegration (mail_from mailData) of
           Inl e \<Rightarrow> ([], Inl (CollaboratorError e))
         | Inr mailHandler \<Rightarrow>
             (case mailHandler mailData of
                Inr result \<Rightarrow>
                  ([MailSend factoryIntegration mailData (Inr result),
                    log_add command (Some (msg_id msg)) MESSAGE_SENT SUCCESS
                      (Some (RawResult result))]
                   @ (case sr_id result of
                        None \<Rightarrow> []
                      | Some ident \<Rightarrow>
                          if \<not> truthy (sr_id result) then []
                          else [MessageUpdate
                                  \<lparr> q_id = msg_id msg,
                                    q_environmentId = cmd_environmentId command \<rparr>
                                  [(''identifier'', ident)]]),
                   Inr ())
              | Inl err \<Rightarrow>
                  ([MailSend factoryIntegration mailData (Inl err),
                    SendErrorStatus (msg_id msg) ''error'' ''mail_unexpected_error''
                      ''Error while sending email with provider''
                      MAIL_PROVIDER_DELIVERY_ERROR (Some err),
                    log_add command (Some (msg_id msg)) PROVIDER_ERROR FAILED
                      (Some (RawError err))],
                   Inr ())))"

subsection \<open>\<^verbatim>\<open>execute\<close> (lines 131-382)\<close>

text \<open>\<^verbatim>\<open>command.overrides.email || {}\<close> and \<^verbatim>\<open>command.overrides[providerId] || {}\<close>\<close>

definition scoped_overrides :: "send_message_command \<Rightarrow> string \<Rightarrow> js_object" where
  "scoped_overrides command scope =
     (case ov_scoped (cmd_overrides command) scope of None \<Rightarrow> Map.empty | Some obj \<Rightarrow> obj)"

text \<open>The merged override map of lines 222-226.\<close>

definition merged_overrides :: "send_message_command \<Rightarrow> integration \<Rightarrow> js_object" where
  "merged_overrides command integ =
     object_assign (scoped_overrides command ''email'')
       (scoped_overrides command (int_providerId integ))"

text \<open>\<^verbatim>\<open>a || d\<close> where \<open>d\<close> is a string literal.\<close>

definition or_default :: "string option \<Rightarrow> string \<Rightarrow> string" where
  "or_default a d = (case a of None \<Rightarrow> d | Some s \<Rightarrow> if s \<noteq> [] then s else d)"

text \<open>
  The mail of lines 340-374. It is built before the test of line 376 and used only by
  \<^verbatim>\<open>sendMessage\<close>, where the address is a non-empty string; the model builds it there.
  The sender name of line 231 is overwritten by the compiler's (line 288) before its only
  use, so the model passes the compiler's to \<^verbatim>\<open>sendMessage\<close>.
\<close>

definition mail_data ::
  "send_message_command \<Rightarrow> subscriber \<Rightarrow> integration \<Rightarrow> js_object \<Rightarrow> template_payload
     \<Rightarrow> message \<Rightarrow> string \<Rightarrow> string \<Rightarrow> string \<Rightarrow> string option \<Rightarrow> email_options" where
  "mail_data command subscriber integ ovr payload msg email subject html replyToAddress =
     (let attachments =
            map_option
              (map (\<lambda>attachment.
                 \<lparr> att_file = att_file attachment, att_mime = att_mime attachment,
                   att_name = att_name attachment, att_channels = att_channels attachment \<rparr>))
              (pl_attachments (cmd_payload command));
          mailData0 =
            createMailData
              \<lparr> mail_to = ToString email,
                mail_subject = subject,
                mail_html = html,
                mail_from =
                  map_option OStr
                    (or_else (cred_from (int_credentials integ)) (Some ''no-reply@novu.co'')),
                mail_text = None,
                mail_attachments = attachments,
                mail_id = Some (msg_id msg),
                mail_replyTo = replyToAddress,
                mail_cc = None,
                mail_bcc = None,
                mail_payloadDetails = None,
                mail_notificationDetails =
                  Some \<lparr> nd_transactionId = cmd_transactionId command,
                         nd_workflowIdentifier = cmd_identifier command,
                         nd_subscriberId = sub_subscriberId subscriber \<rparr>,
                mail_ipPoolName = None,
                mail_customData = None \<rparr>
              ovr;
          overrideReplyTo = get_str (scoped_overrides command ''email'') ''replyTo'';
          mailData1 =
            (if truthy overrideReplyTo then mailData0 \<lparr> mail_replyTo := overrideReplyTo \<rparr>
             else mailData0)
      in if int_providerId integ = EmailWebhook
         then mailData1 \<lparr> mail_payloadDetails := Some payload \<rparr>
         else mailData1)"

text \<open>\<^verbatim>\<open>command.step.replyCallback?.active\<close> as a condition.\<close>

definition reply_active :: "notification_step \<Rightarrow> bool" where
  "reply_active st =
     (case step_replyCallback st of None \<Rightarrow> False | Some rc \<Rightarrow> rc_active rc = Some True)"

text \<open>
  Lines 323-381: the template is compiled and inlined. The \<^verbatim>\<open>PENDING\<close> entry, then
  \<^verbatim>\<open>sendMessage\<close> when there is an address (the integration is known to exist here),
  and \<^verbatim>\<open>sendErrors\<close> otherwise.
\<close>

definition execute_compiled ::
  "world \<Rightarrow> send_message_command \<Rightarrow> subscriber \<Rightarrow> integration \<Rightarrow> string option
     \<Rightarrow> js_object \<Rightarrow> template_payload \<Rightarrow> message \<Rightarrow> compiled_template \<Rightarrow> string
     \<Rightarrow> string option \<Rightarrow> effect list \<times> (error + unit)" where
  "execute_compiled w command subscriber integ email ovr payload msg compiled html
       replyToAddress =
     (let created =
            log_add command (Some (msg_id msg)) MESSAGE_CREATED PENDING
              (if w_storeContent w then Some (RawPayload payload) else None);
          errors = ([created] @ sendErrors email (Some integ) msg command, Inr ())
      in case email of
           None \<Rightarrow> errors
         | Some address \<Rightarrow>
             if truthy email then
               (let sent =
                      sendMessage w integ
                        (mail_data command subscriber integ ovr payload msg address
                           (ct_subject compiled) html replyToAddress)
                        msg command (ct_senderName compiled)
                in ([created] @ fst sent, snd sent))
             else errors)"

text \<open>
  Lines 274-285. The reply address is derived when the step's reply callback is active; a
  truthy address is then written into the compiler's payload as
  \<^verbatim>\<open>step.reply_to_address\<close>.
\<close>

definition reply_resolution ::
  "world \<Rightarrow> send_message_command \<Rightarrow> notification_step \<Rightarrow> message
     \<Rightarrow> effect list \<times> (error + string option)" where
  "reply_resolution w command emailChannel msg =
     (if reply_active emailChannel then getReplyTo w command (msg_id msg)
      else ([], Inr None))"

definition with_reply_to :: "template_payload \<Rightarrow> string option \<Rightarrow> template_payload" where
  "with_reply_to payload replyTo =
     (if truthy replyTo then
        payload \<lparr> tp_payload :=
          (tp_payload payload) \<lparr> cv_step :=
            (cv_step (tp_payload payload)) \<lparr> sv_reply_to_address := replyTo \<rparr> \<rparr> \<rparr>
      else payload)"

text \<open>The command for the compiler, lines 289-294.\<close>

definition compile_command_of ::
  "send_message_command \<Rightarrow> template_payload \<Rightarrow> compile_command" where
  "compile_command_of command payload =
     \<lparr> cc_environmentId = cmd_environmentId command,
       cc_organizationId = cmd_organizationId command,
       cc_userId = cmd_userId command,
       cc_payload = payload \<rparr>"

text \<open>The update of lines 297-310, made when content is stored.\<close>

definition store_content ::
  "world \<Rightarrow> send_message_command \<Rightarrow> message \<Rightarrow> compiled_template \<Rightarrow> effect list" where
  "store_content w command msg compiled =
     (if w_storeContent w then
        [MessageUpdate
           \<lparr> q_id = msg_id msg, q_environmentId = cmd_environmentId command \<rparr>
           [(''subject'', ct_subject compiled), (''content'', ct_content compiled)]]
      else [])"

text \<open>
  Lines 274-321: the record exists. The reply address, then, inside one \<^verbatim>\<open>try\<close>, the
  compilation, the update of the record's content when content is stored, and the CSS
  inlining; an error of any of them ends the pipeline in \<^verbatim>\<open>sendErrorHandlebars\<close>.
\<close>

definition execute_created ::
  "world \<Rightarrow> send_message_command \<Rightarrow> subscriber \<Rightarrow> integration \<Rightarrow> notification_step
     \<Rightarrow> string option \<Rightarrow> js_object \<Rightarrow> template_payload \<Rightarrow> message
     \<Rightarrow> effect list \<times> (error + unit)" where
  "execute_created w command subscriber integ emailChannel email ovr payload0 msg =
     (let reply = reply_resolution w command emailChannel msg
      in case snd reply of
           Inl err \<Rightarrow> (fst reply, Inl err)
         | Inr replyTo \<Rightarrow>
             (let replyToAddress = (if truthy replyTo then replyTo else None);
                  payload = with_reply_to payload0 replyTo;
                  compileCommand = compile_command_of command payload;
                  compiling = fst reply @ [CompileEmailTemplate compileCommand]
              in case w_compile w compileCommand of
                   Inl e \<Rightarrow> (compiling @ [SendErrorHandlebars (cmd_job command) e], Inr ())
                 | Inr compiled \<Rightarrow>
                     (let stored = store_content w command msg compiled
                      in case w_inlineCss w (ct_html compiled) of
                           Inl e \<Rightarrow>
                             (compiling @ stored @ [SendErrorHandlebars (cmd_job command) e],
                              Inr ())
                         | Inr html \<Rightarrow>
                             (let dispatched =
                                    execute_compiled w command subscriber integ email ovr
                                      payload msg compiled html replyToAddress
                              in (compiling @ stored @ fst dispatched, snd dispatched)))))"

text \<open>The payload for the compiler, lines 233-251.\<close>

definition compile_payload ::
  "send_message_command \<Rightarrow> subscriber \<Rightarrow> message_template \<Rightarrow> string option
     \<Rightarrow> subscriber option \<Rightarrow> string option \<Rightarrow> template_payload" where
  "compile_payload command subscriber template tenant actor overrideLayoutId =
     \<lparr> tp_senderName = or_default (tpl_senderName template) [],
       tp_subject = or_default (tpl_subject template) [],
       tp_preheader = tpl_preheader template,
       tp_content = tpl_content template,
       tp_layoutId =
         (case overrideLayoutId of None \<Rightarrow> tpl_layoutId template | Some l \<Rightarrow> Some l),
       tp_contentType = or_default (tpl_contentType template) ''editor'',
       tp_payload =
         \<lparr> cv_payload = cmd_payload command,
           cv_step =
             \<lparr> sv_digest =
                 (case cmd_events command of None \<Rightarrow> False | Some es \<Rightarrow> es \<noteq> []),
               sv_events = cmd_events command,
               sv_total_count = map_option length (cmd_events command),
               sv_reply_to_address = None \<rparr>,
           cv_tenant = tenant,
           cv_actor = actor,
           cv_subscriber = subscriber \<rparr> \<rparr>"

text \<open>
  The data of the Message record, lines 253-272: the payload without its attachments, the
  empty subject, the merged overrides.
\<close>

definition new_message ::
  "send_message_command \<Rightarrow> message_template \<Rightarrow> integration \<Rightarrow> string option
     \<Rightarrow> js_object \<Rightarrow> message_data" where
  "new_message command template integ email ovr =
     (let messagePayload = (cmd_payload command) \<lparr> pl_attachments := None \<rparr>
      in \<lparr> msg_notificationId = cmd_notificationId command,
           msg_environmentId = cmd_environmentId command,
           msg_organizationId = cmd_organizationId command,
           msg_subscriberId = cmd__subscriberId command,
           msg_templateId = cmd__templateId command,
           msg_messageTemplateId = tpl_id template,
           msg_subject = [],
           msg_channel = EMAIL,
           msg_transactionId = cmd_transactionId command,
           msg_email = email,
           msg_providerId = int_providerId integ,
           msg_payload = messagePayload,
           msg_overrides = ovr,
           msg_templateIdentifier = cmd_identifier command,
           msg_jobId = cmd_jobId command \<rparr>)"

text \<open>
  \<^verbatim>\<open>messageRepository.create\<close> returns the stored entity: the data, with the identifier
  the store gave it.
\<close>

definition stored_message :: "world \<Rightarrow> message_data \<Rightarrow> message" where
  "stored_message w data = message_data.extend data (message.fields (w_new_message_id w data))"

text \<open>
  Lines 208-272: the integration is selected. The actor, the three resolutions of
  \<^verbatim>\<open>Promise.all\<close>, the merged overrides, the compiler's payload and the creation of the
  Message record. \<^verbatim>\<open>Promise.all\<close> is given the three promises: each call runs up to its
  first \<^verbatim>\<open>await\<close>, so \<^verbatim>\<open>handleTenantExecution\<close> and
  \<^verbatim>\<open>sendSelectedIntegrationExecution\<close> are called before the layout lookup of
  \<^verbatim>\<open>getOverrideLayoutId\<close> answers, and the entry for a layout that is not found is
  issued after both calls.
\<close>

definition execute_resolved ::
  "world \<Rightarrow> send_message_command \<Rightarrow> subscriber \<Rightarrow> integration \<Rightarrow> notification_step
     \<Rightarrow> message_template \<Rightarrow> string option \<Rightarrow> effect list \<times> (error + unit)" where
  "execute_resolved w command subscriber integ emailChannel template email =
     (let actor =
            (if truthy (job_actorId (cmd_job command)) then
               (case job_actorId (cmd_job command) of
                  None \<Rightarrow> None
                | Some actorId \<Rightarrow> w_subscribers w actorId (cmd_environmentId command))
             else None);
          tenant = w_handleTenantExecution w (cmd_job command);
          layout = getOverrideLayoutId w command;
          overrideLayoutId = snd layout;
          resolutions =
            [HandleTenantExecution (cmd_job command),
             SendSelectedIntegrationExecution (cmd_job command) integ] @ fst layout;
          ovr = merged_overrides command integ;
          payload = compile_payload command subscriber template tenant actor overrideLayoutId;
          data = new_message command template integ email ovr;
          msg = stored_message w data;
          run = execute_created w command subscriber integ emailChannel email ovr payload msg
      in (resolutions @ [MessageCreate data] @ fst run, snd run))"

text \<open>
  Lines 131-206: the subscriber, the integration (any error of the selection is caught),
  the step and its template, the recipient address, and the test for an integration.
\<close>

text \<open>The arguments of \<^verbatim>\<open>getIntegration\<close> (lines 142-151).\<close>

definition integration_query :: "send_message_command \<Rightarrow> select_integration_command" where
  "integration_query command =
     \<lparr> sic_organizationId = cmd_organizationId command,
       sic_environmentId = cmd_environmentId command,
       sic_channelType = EMAIL,
       sic_userId = cmd_userId command,
       sic_identifier = get_str (scoped_overrides command ''email'') ''integrationIdentifier'',
       sic_tenant = job_tenant (cmd_job command) \<rparr>"

definition execute ::
  "world \<Rightarrow> send_message_command \<Rightarrow> effect list \<times> (error + unit)" where
  "execute w command =
     (case w_subscribers w (cmd_subscriberId command) (cmd_environmentId command) of
        None \<Rightarrow>
          ([], Inl (PlatformException
             (''Subscriber '' @ cmd_subscriberId command @ '' not found'')))
      | Some subscriber \<Rightarrow>
          (let overrideSelectedIntegration =
                 get_str (scoped_overrides command ''email'') ''integrationIdentifier''
           in case w_getIntegration w (integration_query command) of
                Inl e \<Rightarrow>
                  ([log_add command None LIMIT_PASSED_NOVU_INTEGRATION FAILED
                      (Some (RawMessage e))], Inr ())
              | Inr selected \<Rightarrow>
                  (case cmd_step command of
                     None \<Rightarrow> ([], Inl (PlatformException ''Email channel step not found''))
                   | Some emailChannel \<Rightarrow>
                       (case step_template emailChannel of
                          None \<Rightarrow>
                            ([], Inl (PlatformException ''Email channel template not found''))
                        | Some template \<Rightarrow>
                            (let email =
                                   or_else (pl_email (cmd_payload command)) (sub_email subscriber)
                             in case selected of
                                  None \<Rightarrow>
                                    ([log_add command None SUBSCRIBER_NO_ACTIVE_INTEGRATION FAILED
                                        (if truthy overrideSelectedIntegration
                                         then map_option RawIntegrationIdentifier
                                                overrideSelectedIntegration
                                         else None)], Inr ())
                                | Some integ \<Rightarrow>
                                    execute_resolved w command subscriber integ emailChannel
                                      template email)))))"

subsection \<open>Reading a trace of effects\<close>

text \<open>The audit entries of a trace, in order.\<close>

fun audit_entries :: "effect list \<Rightarrow> execution_detail list" where
  "audit_entries [] = []"
| "audit_entries (ExecutionLogAdd entry org # es) = entry # audit_entries es"
| "audit_entries (e # es) = audit_entries es"

text \<open>The Message records a trace creates, and the updates it makes to Message records.\<close>

fun created_messages :: "effect list \<Rightarrow> message_data list" where
  "created_messages [] = []"
| "created_messages (MessageCreate data # es) = data # created_messages es"
| "created_messages (e # es) = created_messages es"

fun message_updates :: "effect list \<Rightarrow> (message_query \<times> (string \<times> string) list) list" where
  "message_updates [] = []"
| "message_updates (MessageUpdate query changes # es) = (query, changes) # message_updates es"
| "message_updates (e # es) = message_updates es"

text \<open>The compilations a trace requests, and the provider sends with their answers.\<close>

fun compile_calls :: "effect list \<Rightarrow> compile_command list" where
  "compile_calls [] = []"
| "compile_calls (CompileEmailTemplate c # es) = c # compile_calls es"
| "compile_calls (e # es) = compile_calls es"

fun mail_sends ::
  "effect list \<Rightarrow> (integration \<times> email_options \<times> (string + send_response)) list" where
  "mail_sends [] = []"
| "mail_sends (MailSend integ mailData answer # es) = (integ, mailData, answer) # mail_sends es"
| "mail_sends (e # es) = mail_sends es"

text \<open>The results of the sends that succeeded.\<close>

fun send_results :: "effect list \<Rightarrow> send_response list" where
  "send_results [] = []"
| "send_results (MailSend integ mailData (Inr result) # es) = result # send_results es"
| "send_results (e # es) = send_results es"

text \<open>
  The two updates the pipeline makes: of the compiled content, and of the identifier the
  provider assigned.
\<close>

definition content_updates ::
  "effect list \<Rightarrow> (message_query \<times> (string \<times> string) list) list" where
  "content_updates es =
     filter (\<lambda>(query, changes). map fst changes = [''subject'', ''content''])
       (message_updates es)"

definition identifier_updates ::
  "effect list \<Rightarrow> (message_query \<times> (string \<times> string) list) list" where
  "identifier_updates es =
     filter (\<lambda>(query, changes). map fst changes = [''identifier'']) (message_updates es)"

text \<open>The entries of a given status, and of a given status and code.\<close>

definition entries_with_status ::
  "execution_status \<Rightarrow> effect list \<Rightarrow> execution_detail list" where
  "entries_with_status st es = filter (\<lambda>entry. ed_status entry = st) (audit_entries es)"

definition entries_with ::
  "execution_status \<Rightarrow> detail_enum \<Rightarrow> effect list \<Rightarrow> execution_detail list" where
  "entries_with st d es =
     filter (\<lambda>entry. ed_status entry = st \<and> ed_detail entry = d) (audit_entries es)"

definition entries_with_detail :: "detail_enum \<Rightarrow> effect list \<Rightarrow> execution_detail list" where
  "entries_with_detail d es = filter (\<lambda>entry. ed_detail entry = d) (audit_entries es)"

text \<open>
  The entry of line 523-538 for a result of the provider, and the update of lines 542-553
  for it: none when the result has no \<^verbatim>\<open>id\<close> or an empty one.
\<close>

definition success_entry ::
  "message \<Rightarrow> send_message_command \<Rightarrow> send_response \<Rightarrow> execution_detail" where
  "success_entry msg command result =
     create_details command (Some (msg_id msg)) MESSAGE_SENT SUCCESS (Some (RawResult result))"

definition identifier_update ::
  "message \<Rightarrow> send_message_command \<Rightarrow> send_response
     \<Rightarrow> (message_query \<times> (string \<times> string) list) list" where
  "identifier_update msg command result =
     (case sr_id result of
        None \<Rightarrow> []
      | Some ident \<Rightarrow>
          if ident = [] then []
          else [(\<lparr> q_id = msg_id msg, q_environmentId = cmd_environmentId command \<rparr>,
                 [(''identifier'', ident)])])"

text \<open>
  The update of lines 297-310 for a compilation that was requested: made when the compiler
  answered with a template and content is stored.
\<close>

definition content_update ::
  "world \<Rightarrow> send_message_command \<Rightarrow> message \<Rightarrow> compile_command
     \<Rightarrow> (message_query \<times> (string \<times> string) list) list" where
  "content_update w command msg compileCommand =
     (case w_compile w compileCommand of
        Inl e \<Rightarrow> []
      | Inr compiled \<Rightarrow>
          if w_storeContent w then
            [(\<lparr> q_id = msg_id msg, q_environmentId = cmd_environmentId command \<rparr>,
              [(''subject'', ct_subject compiled), (''content'', ct_content compiled)])]
          else [])"

text \<open>
  The calls of \<^verbatim>\<open>sendErrorStatus\<close> in a trace, with the identifier of the record that
  each is handed.
\<close>

fun error_status_calls :: "effect list \<Rightarrow> string list" where
  "error_status_calls [] = []"
| "error_status_calls (SendErrorStatus messageId status errorId text code err # es) =
     messageId # error_status_calls es"
| "error_status_calls (e # es) = error_status_calls es"

text \<open>The reply address that each compilation of a trace was given.\<close>

definition compiled_reply_addresses :: "effect list \<Rightarrow> string option list" where
  "compiled_reply_addresses es =
     map (\<lambda>compileCommand. sv_reply_to_address (cv_step (tp_payload (cc_payload compileCommand))))
       (compile_calls es)"

text \<open>
  \<^verbatim>\<open>getReplyTo\<close> answers with one \<^verbatim>\<open>WARNING\<close> entry of the given code for the given
  record and returns \<^verbatim>\<open>null\<close>.
\<close>

definition warns_and_returns_null ::
  "world \<Rightarrow> send_message_command \<Rightarrow> string \<Rightarrow> detail_enum \<Rightarrow> bool" where
  "warns_and_returns_null w command messageId code \<longleftrightarrow>
     getReplyTo w command messageId =
       ([log_add command (Some messageId) code WARNING None], Inr None)"

text \<open>
  The pipeline did not fail at the reply address: its only \<^verbatim>\<open>WARNING\<close> entry has the
  given code and the identifier of the record it created, and it went on to compile, with
  no reply address in the compiler's payload.
\<close>

definition warned_without_reply ::
  "world \<Rightarrow> send_message_command \<Rightarrow> detail_enum \<Rightarrow> bool" where
  "warned_without_reply w command code \<longleftrightarrow>
     (case created_messages (fst (execute w command)) of
        [data] \<Rightarrow>
          entries_with_status WARNING (fst (execute w command)) =
            [create_details command (Some (w_new_message_id w data)) code WARNING None]
      | _ \<Rightarrow> False)
     \<and> compiled_reply_addresses (fst (execute w command)) = [None]"

text \<open>The layout that each compilation of a trace was given.\<close>

definition compiled_layouts :: "effect list \<Rightarrow> string option list" where
  "compiled_layouts es =
     map (\<lambda>compileCommand. tp_layoutId (cc_payload compileCommand)) (compile_calls es)"

subsection \<open>Sample data\<close>

text \<open>One concrete job and one concrete set of collaborators, for evaluating the model.\<close>

definition sample_subscriber :: subscriber where
  "sample_subscriber = \<lparr> sub_subscriberId = ''sub-1'', sub_email = Some ''a@x.com'' \<rparr>"

definition sample_integration :: integration where
  "sample_integration =
     \<lparr> int_providerId = ''sendgrid'',
       int_credentials = \<lparr> cred_from = Some ''team@x.com'', cred_senderName = Some ''Team'' \<rparr> \<rparr>"

definition sample_template :: message_template where
  "sample_template =
     \<lparr> tpl_id = ''tpl-1'', tpl_senderName = None, tpl_subject = Some ''Hello'',
       tpl_preheader = None, tpl_content = ''Hi'', tpl_layoutId = Some ''layout-default'',
       tpl_contentType = None \<rparr>"

definition sample_step :: notification_step where
  "sample_step = \<lparr> step_template = Some sample_template, step_replyCallback = None \<rparr>"

definition sample_command :: send_message_command where
  "sample_command =
     \<lparr> cmd_identifier = ''welcome'',
       cmd_transactionId = ''tx123'',
       cmd_organizationId = ''org-1'',
       cmd_environmentId = ''env456'',
       cmd_userId = ''user-1'',
       cmd_subscriberId = ''sub-1'',
       cmd__subscriberId = ''s1'',
       cmd_notificationId = ''n1'',
       cmd__templateId = ''t1'',
       cmd_jobId = ''job-1'',
       cmd_step = Some sample_step,
       cmd_payload = \<lparr> pl_email = None, pl_attachments = None, pl_data = [] \<rparr>,
       cmd_overrides =
         \<lparr> ov_layoutIdentifier = None,
           ov_scoped =
             [''email'' \<mapsto> [''senderName'' \<mapsto> OStr ''Channel''],
              ''sendgrid'' \<mapsto> [''senderName'' \<mapsto> OStr ''Provider'']] \<rparr>,
       cmd_events = None,
       cmd_job = \<lparr> job_id = ''job-1'', job_tenant = None, job_actorId = None \<rparr> \<rparr>"

definition sample_environment :: environment where
  "sample_environment =
     \<lparr> env_id = ''env456'',
       env_dns = Some \<lparr> dns_mxRecordConfigured = Some True,
                        dns_inboundParseDomain = Some ''reply.example.com'' \<rparr> \<rparr>"

definition sample_world :: world where
  "sample_world =
     \<lparr> w_subscribers = (\<lambda>subscriberId environmentId.
          if subscriberId = ''sub-1'' then Some sample_subscriber else None),
       w_getIntegration = (\<lambda>query. Inr (Some sample_integration)),
       w_layouts = (\<lambda>environmentId identifier. None),
       w_environments = (\<lambda>environmentId.
          if environmentId = ''env456'' then Some sample_environment else None),
       w_handleTenantExecution = (\<lambda>j. None),
       w_storeContent = True,
       w_new_message_id = (\<lambda>data. ''msg-1''),
       w_compile = (\<lambda>compileCommand.
          Inr \<lparr> ct_html = ''<p>Hi</p>'', ct_content = ''Hi'', ct_subject = ''Hello'',
                ct_senderName = None \<rparr>),
       w_inlineCss = (\<lambda>html. Inr html),
       w_getHandler = (\<lambda>factoryIntegration fromAddress.
          Inr (\<lambda>mailData. Inr \<lparr> sr_id = Some ''prov-1'', sr_date = None \<rparr>)) \<rparr>"


text \<open>Variations of the sample: what a collaborator answers, or what the job asks.\<close>

definition world_without_integration :: world where
  "world_without_integration = sample_world \<lparr> w_getIntegration := (\<lambda>query. Inr None) \<rparr>"

definition world_selection_raises :: world where
  "world_selection_raises =
     sample_world \<lparr> w_getIntegration := (\<lambda>query. Inl ''Limit for the email provider was reached'') \<rparr>"

definition world_without_address :: world where
  "world_without_address =
     sample_world \<lparr> w_subscribers := (\<lambda>subscriberId environmentId.
        if subscriberId = ''sub-1'' then Some (sample_subscriber \<lparr> sub_email := None \<rparr>)
        else None) \<rparr>"

definition world_not_storing :: world where
  "world_not_storing = sample_world \<lparr> w_storeContent := False \<rparr>"

definition command_without_step :: send_message_command where
  "command_without_step = sample_command \<lparr> cmd_step := None \<rparr>"

definition command_with_layout :: send_message_command where
  "command_with_layout =
     sample_command \<lparr> cmd_overrides :=
       (cmd_overrides sample_command) \<lparr> ov_layoutIdentifier := Some ''fancy'' \<rparr> \<rparr>"

definition command_reply_without_url :: send_message_command where
  "command_reply_without_url =
     sample_command \<lparr> cmd_step :=
       Some (sample_step \<lparr> step_replyCallback :=
               Some \<lparr> rc_active = Some True, rc_url = None \<rparr> \<rparr>) \<rparr>"

definition command_reply :: send_message_command where
  "command_reply =
     sample_command \<lparr> cmd_step :=
       Some (sample_step \<lparr> step_replyCallback :=
               Some \<lparr> rc_active = Some True, rc_url = Some ''https://x.com/reply'' \<rparr> \<rparr>) \<rparr>"

definition world_without_environment :: world where
  "world_without_environment = sample_world \<lparr> w_environments := (\<lambda>environmentId. None) \<rparr>"

definition world_with_dns :: "dns_settings option \<Rightarrow> world" where
  "world_with_dns dns =
     sample_world \<lparr> w_environments := (\<lambda>environmentId.
        if environmentId = ''env456'' then Some (sample_environment \<lparr> env_dns := dns \<rparr>)
        else None) \<rparr>"

definition dns_without_mx :: dns_settings where
  "dns_without_mx =
     \<lparr> dns_mxRecordConfigured = None, dns_inboundParseDomain = Some ''reply.example.com'' \<rparr>"

definition dns_without_domain :: dns_settings where
  "dns_without_domain = \<lparr> dns_mxRecordConfigured = Some True, dns_inboundParseDomain = None \<rparr>"

section \<open>Properties\<close>

subsection \<open>Traces split at an append\<close>

lemma audit_entries_append [simp]:
  "audit_entries (xs @ ys) = audit_entries xs @ audit_entries ys"
  by (induction xs rule: audit_entries.induct) simp_all

lemma created_messages_append [simp]:
  "created_messages (xs @ ys) = created_messages xs @ created_messages ys"
  by (induction xs rule: created_messages.induct) simp_all

lemma message_updates_append [simp]:
  "message_updates (xs @ ys) = message_updates xs @ message_updates ys"
  by (induction xs rule: message_updates.induct) simp_all

lemma compile_calls_append [simp]:
  "compile_calls (xs @ ys) = compile_calls xs @ compile_calls ys"
  by (induction xs rule: compile_calls.induct) simp_all

lemma mail_sends_append [simp]:
  "mail_sends (xs @ ys) = mail_sends xs @ mail_sends ys"
  by (induction xs rule: mail_sends.induct) simp_all

lemma send_results_append [simp]:
  "send_results (xs @ ys) = send_results xs @ send_results ys"
  by (induction xs rule: send_results.induct) simp_all

lemma error_status_calls_append [simp]:
  "error_status_calls (xs @ ys) = error_status_calls xs @ error_status_calls ys"
  by (induction xs rule: error_status_calls.induct) simp_all

lemma entries_with_status_append [simp]:
  "entries_with_status st (xs @ ys) = entries_with_status st xs @ entries_with_status st ys"
  by (simp add: entries_with_status_def)

lemma entries_with_append [simp]:
  "entries_with st d (xs @ ys) = entries_with st d xs @ entries_with st d ys"
  by (simp add: entries_with_def)

lemma content_updates_append [simp]:
  "content_updates (xs @ ys) = content_updates xs @ content_updates ys"
  by (simp add: content_updates_def)

lemma identifier_updates_append [simp]:
  "identifier_updates (xs @ ys) = identifier_updates xs @ identifier_updates ys"
  by (simp add: identifier_updates_def)

lemma create_details_sel [simp]:
  "ed_status (create_details c m d st raw) = st"
  "ed_detail (create_details c m d st raw) = d"
  "ed_messageId (create_details c m d st raw) = m"
  "ed_raw (create_details c m d st raw) = raw"
  by (simp_all add: create_details_def)

lemma entries_with_detail_append [simp]:
  "entries_with_detail d (xs @ ys) = entries_with_detail d xs @ entries_with_detail d ys"
  by (simp add: entries_with_detail_def)

lemmas projections =
  entries_with_status_def entries_with_def entries_with_detail_def content_updates_def
  identifier_updates_def log_add_def

lemma entries_with_status_Cons [simp]:
  "entries_with_status st' (log_add c m d st raw # es) =
     (if st = st' then [create_details c m d st raw] else []) @ entries_with_status st' es"
  "entries_with_status st' (MessageCreate data # es) = entries_with_status st' es"
  "entries_with_status st' (MessageUpdate query changes # es) = entries_with_status st' es"
  "entries_with_status st' (SendErrorStatus a1 a2 a3 a4 a5 a6 # es) = entries_with_status st' es"
  "entries_with_status st' (SendErrorHandlebars j e # es) = entries_with_status st' es"
  "entries_with_status st' (HandleTenantExecution j # es) = entries_with_status st' es"
  "entries_with_status st' (SendSelectedIntegrationExecution j integ # es) =
     entries_with_status st' es"
  "entries_with_status st' (CompileEmailTemplate cc # es) = entries_with_status st' es"
  "entries_with_status st' (MailSend integ md answer # es) = entries_with_status st' es"
  "entries_with_status st' [] = []"
  by (simp_all add: entries_with_status_def log_add_def)

lemma entries_with_Cons [simp]:
  "entries_with st' d' (log_add c m d st raw # es) =
     (if st = st' \<and> d = d' then [create_details c m d st raw] else []) @ entries_with st' d' es"
  "entries_with st' d' (MessageCreate data # es) = entries_with st' d' es"
  "entries_with st' d' (MessageUpdate query changes # es) = entries_with st' d' es"
  "entries_with st' d' (SendErrorStatus a1 a2 a3 a4 a5 a6 # es) = entries_with st' d' es"
  "entries_with st' d' (SendErrorHandlebars j e # es) = entries_with st' d' es"
  "entries_with st' d' (HandleTenantExecution j # es) = entries_with st' d' es"
  "entries_with st' d' (SendSelectedIntegrationExecution j integ # es) = entries_with st' d' es"
  "entries_with st' d' (CompileEmailTemplate cc # es) = entries_with st' d' es"
  "entries_with st' d' (MailSend integ md answer # es) = entries_with st' d' es"
  "entries_with st' d' [] = []"
  by (simp_all add: entries_with_def log_add_def)

lemma entries_with_detail_Cons [simp]:
  "entries_with_detail d' (log_add c m d st raw # es) =
     (if d = d' then [create_details c m d st raw] else []) @ entries_with_detail d' es"
  "entries_with_detail d' (MessageCreate data # es) = entries_with_detail d' es"
  "entries_with_detail d' (MessageUpdate query changes # es) = entries_with_detail d' es"
  "entries_with_detail d' (SendErrorStatus a1 a2 a3 a4 a5 a6 # es) = entries_with_detail d' es"
  "entries_with_detail d' (SendErrorHandlebars j e # es) = entries_with_detail d' es"
  "entries_with_detail d' (HandleTenantExecution j # es) = entries_with_detail d' es"
  "entries_with_detail d' (SendSelectedIntegrationExecution j integ # es) =
     entries_with_detail d' es"
  "entries_with_detail d' (CompileEmailTemplate cc # es) = entries_with_detail d' es"
  "entries_with_detail d' (MailSend integ md answer # es) = entries_with_detail d' es"
  "entries_with_detail d' [] = []"
  by (simp_all add: entries_with_detail_def log_add_def)

lemma log_add_Cons [simp]:
  "created_messages (log_add c m d st raw # es) = created_messages es"
  "message_updates (log_add c m d st raw # es) = message_updates es"
  "compile_calls (log_add c m d st raw # es) = compile_calls es"
  "mail_sends (log_add c m d st raw # es) = mail_sends es"
  "send_results (log_add c m d st raw # es) = send_results es"
  "audit_entries (log_add c m d st raw # es) = create_details c m d st raw # audit_entries es"
  "error_status_calls (log_add c m d st raw # es) = error_status_calls es"
  by (simp_all add: log_add_def)

lemma content_updates_Cons [simp]:
  "content_updates (log_add c m d st raw # es) = content_updates es"
  "content_updates (MessageCreate data # es) = content_updates es"
  "content_updates (MessageUpdate query changes # es) =
     (if map fst changes = [''subject'', ''content''] then [(query, changes)] else [])
       @ content_updates es"
  "content_updates (SendErrorStatus a1 a2 a3 a4 a5 a6 # es) = content_updates es"
  "content_updates (SendErrorHandlebars j e # es) = content_updates es"
  "content_updates (HandleTenantExecution j # es) = content_updates es"
  "content_updates (SendSelectedIntegrationExecution j integ # es) = content_updates es"
  "content_updates (CompileEmailTemplate cc # es) = content_updates es"
  "content_updates (MailSend integ md answer # es) = content_updates es"
  "content_updates [] = []"
  by (simp_all add: content_updates_def log_add_def)

lemma identifier_updates_Cons [simp]:
  "identifier_updates (log_add c m d st raw # es) = identifier_updates es"
  "identifier_updates (MessageCreate data # es) = identifier_updates es"
  "identifier_updates (MessageUpdate query changes # es) =
     (if map fst changes = [''identifier''] then [(query, changes)] else [])
       @ identifier_updates es"
  "identifier_updates (SendErrorStatus a1 a2 a3 a4 a5 a6 # es) = identifier_updates es"
  "identifier_updates (SendErrorHandlebars j e # es) = identifier_updates es"
  "identifier_updates (HandleTenantExecution j # es) = identifier_updates es"
  "identifier_updates (SendSelectedIntegrationExecution j integ # es) = identifier_updates es"
  "identifier_updates (CompileEmailTemplate cc # es) = identifier_updates es"
  "identifier_updates (MailSend integ md answer # es) = identifier_updates es"
  "identifier_updates [] = []"
  by (simp_all add: identifier_updates_def log_add_def)

lemma msg_id_stored_message [simp]: "msg_id (stored_message w data) = w_new_message_id w data"
  by (simp add: stored_message_def message_data.extend_def message.fields_def)

subsection \<open>What the helpers of the pipeline leave untouched\<close>

lemma getOverrideLayoutId_quiet [simp]:
  "created_messages (fst (getOverrideLayoutId w c)) = []"
  "message_updates (fst (getOverrideLayoutId w c)) = []"
  "compile_calls (fst (getOverrideLayoutId w c)) = []"
  "mail_sends (fst (getOverrideLayoutId w c)) = []"
  "send_results (fst (getOverrideLayoutId w c)) = []"
  "entries_with_status SUCCESS (fst (getOverrideLayoutId w c)) = []"
  "entries_with_status WARNING (fst (getOverrideLayoutId w c)) = []"
  "entries_with FAILED SUBSCRIBER_NO_CHANNEL_DETAILS (fst (getOverrideLayoutId w c)) = []"
  "error_status_calls (fst (getOverrideLayoutId w c)) = []"
  by (simp_all add: getOverrideLayoutId_def Let_def split: option.split)

lemma getReplyTo_quiet [simp]:
  "created_messages (fst (getReplyTo w c m)) = []"
  "message_updates (fst (getReplyTo w c m)) = []"
  "compile_calls (fst (getReplyTo w c m)) = []"
  "mail_sends (fst (getReplyTo w c m)) = []"
  "send_results (fst (getReplyTo w c m)) = []"
  "entries_with_status SUCCESS (fst (getReplyTo w c m)) = []"
  "entries_with st SUBSCRIBER_NO_CHANNEL_DETAILS (fst (getReplyTo w c m)) = []"
  "entries_with_detail LAYOUT_NOT_FOUND (fst (getReplyTo w c m)) = []"
  "error_status_calls (fst (getReplyTo w c m)) = []"
  by (simp_all add: getReplyTo_def Let_def reply_warning_detail_def split: option.split)

lemma reply_resolution_quiet [simp]:
  "created_messages (fst (reply_resolution w c st msg)) = []"
  "message_updates (fst (reply_resolution w c st msg)) = []"
  "compile_calls (fst (reply_resolution w c st msg)) = []"
  "mail_sends (fst (reply_resolution w c st msg)) = []"
  "send_results (fst (reply_resolution w c st msg)) = []"
  "entries_with_status SUCCESS (fst (reply_resolution w c st msg)) = []"
  "entries_with st' SUBSCRIBER_NO_CHANNEL_DETAILS (fst (reply_resolution w c st msg)) = []"
  "entries_with_detail LAYOUT_NOT_FOUND (fst (reply_resolution w c st msg)) = []"
  "content_updates (fst (reply_resolution w c st msg)) = []"
  "identifier_updates (fst (reply_resolution w c st msg)) = []"
  "error_status_calls (fst (reply_resolution w c st msg)) = []"
  by (simp_all add: reply_resolution_def content_updates_def identifier_updates_def)

lemma store_content_quiet [simp]:
  "created_messages (store_content w c msg compiled) = []"
  "compile_calls (store_content w c msg compiled) = []"
  "mail_sends (store_content w c msg compiled) = []"
  "send_results (store_content w c msg compiled) = []"
  "entries_with_status st' (store_content w c msg compiled) = []"
  "entries_with st' d (store_content w c msg compiled) = []"
  "entries_with_detail d (store_content w c msg compiled) = []"
  "identifier_updates (store_content w c msg compiled) = []"
  "error_status_calls (store_content w c msg compiled) = []"
  by (simp_all add: store_content_def)

lemma store_content_updates:
  "message_updates (store_content w c msg compiled) = content_updates (store_content w c msg compiled)"
  "content_updates (store_content w c msg compiled) =
     (if w_storeContent w then
        [(\<lparr> q_id = msg_id msg, q_environmentId = cmd_environmentId c \<rparr>,
          [(''subject'', ct_subject compiled), (''content'', ct_content compiled)])]
      else [])"
  by (simp_all add: store_content_def)

lemma with_reply_to_layout [simp]: "tp_layoutId (with_reply_to payload replyTo) = tp_layoutId payload"
  by (simp add: with_reply_to_def)

lemma compile_command_of_payload [simp]: "cc_payload (compile_command_of c payload) = payload"
  by (simp add: compile_command_of_def)

lemma sendErrors_quiet [simp]:
  "message_updates (sendErrors email integ msg c) = []"
  "created_messages (sendErrors email integ msg c) = []"
  "compile_calls (sendErrors email integ msg c) = []"
  "mail_sends (sendErrors email integ msg c) = []"
  "send_results (sendErrors email integ msg c) = []"
  "entries_with_status SUCCESS (sendErrors email integ msg c) = []"
  "entries_with_status WARNING (sendErrors email integ msg c) = []"
  "entries_with_detail LAYOUT_NOT_FOUND (sendErrors email integ msg c) = []"
  "identifier_updates (sendErrors email integ msg c) = []"
  "content_updates (sendErrors email integ msg c) = []"
  by (simp_all add: sendErrors_def Let_def)

lemma sendMessage_quiet [simp]:
  "created_messages (fst (sendMessage w integ md msg c sn)) = []"
  "compile_calls (fst (sendMessage w integ md msg c sn)) = []"
  "entries_with_status WARNING (fst (sendMessage w integ md msg c sn)) = []"
  "entries_with_detail LAYOUT_NOT_FOUND (fst (sendMessage w integ md msg c sn)) = []"
  "entries_with st SUBSCRIBER_NO_CHANNEL_DETAILS (fst (sendMessage w integ md msg c sn)) = []"
  "content_updates (fst (sendMessage w integ md msg c sn)) = []"
  by (simp_all add: sendMessage_def Let_def split: sum.split option.split)

subsection \<open>What \<^verbatim>\<open>sendMessage\<close> does\<close>

lemma sendMessage_sends:
  "length (mail_sends (fst (sendMessage w integ md msg c sn))) \<le> Suc 0"
  "length (send_results (fst (sendMessage w integ md msg c sn))) \<le> Suc 0"
  by (simp_all add: sendMessage_def Let_def split: sum.split option.split)

lemma sendMessage_success:
  "entries_with_status SUCCESS (fst (sendMessage w integ md msg c sn)) =
     map (success_entry msg c) (send_results (fst (sendMessage w integ md msg c sn)))"
  by (simp add: sendMessage_def Let_def success_entry_def split: sum.split option.split)

lemma sendMessage_updates:
  "message_updates (fst (sendMessage w integ md msg c sn)) =
     concat (map (identifier_update msg c) (send_results (fst (sendMessage w integ md msg c sn))))"
  by (simp add: sendMessage_def Let_def identifier_update_def truthy_def
      split: sum.split option.split)

lemma sendMessage_identifier_updates:
  "identifier_updates (fst (sendMessage w integ md msg c sn)) =
     message_updates (fst (sendMessage w integ md msg c sn))"
  by (simp add: sendMessage_def Let_def truthy_def split: sum.split option.split)

lemma sendMessage_error_status:
  "length (error_status_calls (fst (sendMessage w integ md msg c sn))) \<le> Suc 0"
  "send_results (fst (sendMessage w integ md msg c sn)) \<noteq> [] \<Longrightarrow>
     error_status_calls (fst (sendMessage w integ md msg c sn)) = []"
  by (auto simp: sendMessage_def Let_def split: sum.splits option.splits)

subsection \<open>After compilation: lines 323-381\<close>

lemma execute_compiled_error_status:
  "length (error_status_calls (fst (execute_compiled w c s integ email ovr p msg cmp html r)))
     \<le> Suc 0"
  "send_results (fst (execute_compiled w c s integ email ovr p msg cmp html r)) \<noteq> [] \<Longrightarrow>
     error_status_calls (fst (execute_compiled w c s integ email ovr p msg cmp html r)) = []"
  by (simp_all add: execute_compiled_def Let_def sendErrors_def sendMessage_error_status
      split: option.split option.split_asm if_split_asm)


lemma execute_compiled_quiet [simp]:
  "created_messages (fst (execute_compiled w c s integ email ovr p msg cmp html r)) = []"
  "compile_calls (fst (execute_compiled w c s integ email ovr p msg cmp html r)) = []"
  "entries_with_status WARNING (fst (execute_compiled w c s integ email ovr p msg cmp html r)) = []"
  "entries_with_detail LAYOUT_NOT_FOUND
     (fst (execute_compiled w c s integ email ovr p msg cmp html r)) = []"
  "content_updates (fst (execute_compiled w c s integ email ovr p msg cmp html r)) = []"
  by (simp_all add: execute_compiled_def Let_def split: option.split)

lemma execute_compiled_sends:
  "length (mail_sends (fst (execute_compiled w c s integ email ovr p msg cmp html r))) \<le> Suc 0"
  "length (send_results (fst (execute_compiled w c s integ email ovr p msg cmp html r))) \<le> Suc 0"
  by (simp_all add: execute_compiled_def Let_def sendMessage_sends split: option.split)

lemma execute_compiled_success:
  "entries_with_status SUCCESS (fst (execute_compiled w c s integ email ovr p msg cmp html r)) =
     map (success_entry msg c)
       (send_results (fst (execute_compiled w c s integ email ovr p msg cmp html r)))"
  by (simp add: execute_compiled_def Let_def sendMessage_success split: option.split)

lemma execute_compiled_updates:
  "message_updates (fst (execute_compiled w c s integ email ovr p msg cmp html r)) =
     concat (map (identifier_update msg c)
       (send_results (fst (execute_compiled w c s integ email ovr p msg cmp html r))))"
  "identifier_updates (fst (execute_compiled w c s integ email ovr p msg cmp html r)) =
     message_updates (fst (execute_compiled w c s integ email ovr p msg cmp html r))"
  by (simp_all add: execute_compiled_def Let_def sendMessage_updates
      sendMessage_identifier_updates split: option.split)

lemma execute_compiled_no_address:
  assumes "\<not> truthy email"
  shows "snd (execute_compiled w c s integ email ovr p msg cmp html r) = Inr ()"
    and "mail_sends (fst (execute_compiled w c s integ email ovr p msg cmp html r)) = []"
    and "entries_with FAILED SUBSCRIBER_NO_CHANNEL_DETAILS
           (fst (execute_compiled w c s integ email ovr p msg cmp html r)) =
         [create_details c (Some (msg_id msg)) SUBSCRIBER_NO_CHANNEL_DETAILS FAILED None]"
  using assms
  by (auto simp: execute_compiled_def Let_def sendErrors_def split: option.split)

subsection \<open>After the creation of the record: lines 274-321\<close>

text \<open>The four ways through \<open>execute_created\<close>.\<close>

lemma execute_created_cases:
  obtains
    (raised) err where
      "snd (reply_resolution w c st msg) = Inl err"
      "execute_created w c s integ st email ovr pay msg =
         (fst (reply_resolution w c st msg), Inl err)"
  | (not_compiled) replyTo e where
      "snd (reply_resolution w c st msg) = Inr replyTo"
      "w_compile w (compile_command_of c (with_reply_to pay replyTo)) = Inl e"
      "execute_created w c s integ st email ovr pay msg =
         (fst (reply_resolution w c st msg)
            @ [CompileEmailTemplate (compile_command_of c (with_reply_to pay replyTo)),
               SendErrorHandlebars (cmd_job c) e], Inr ())"
  | (not_inlined) replyTo compiled e where
      "snd (reply_resolution w c st msg) = Inr replyTo"
      "w_compile w (compile_command_of c (with_reply_to pay replyTo)) = Inr compiled"
      "w_inlineCss w (ct_html compiled) = Inl e"
      "execute_created w c s integ st email ovr pay msg =
         (fst (reply_resolution w c st msg)
            @ [CompileEmailTemplate (compile_command_of c (with_reply_to pay replyTo))]
            @ store_content w c msg compiled @ [SendErrorHandlebars (cmd_job c) e], Inr ())"
  | (compiled) replyTo compiled html where
      "snd (reply_resolution w c st msg) = Inr replyTo"
      "w_compile w (compile_command_of c (with_reply_to pay replyTo)) = Inr compiled"
      "w_inlineCss w (ct_html compiled) = Inr html"
      "execute_created w c s integ st email ovr pay msg =
         (fst (reply_resolution w c st msg)
            @ [CompileEmailTemplate (compile_command_of c (with_reply_to pay replyTo))]
            @ store_content w c msg compiled
            @ fst (execute_compiled w c s integ email ovr (with_reply_to pay replyTo) msg compiled
                     html (if truthy replyTo then replyTo else None)),
          snd (execute_compiled w c s integ email ovr (with_reply_to pay replyTo) msg compiled
                 html (if truthy replyTo then replyTo else None)))"
proof (cases "snd (reply_resolution w c st msg)")
  case (Inl err)
  then show ?thesis using raised by (simp add: execute_created_def Let_def)
next
  case reply: (Inr replyTo)
  show ?thesis
  proof (cases "w_compile w (compile_command_of c (with_reply_to pay replyTo))")
    case (Inl e)
    then show ?thesis using reply not_compiled by (simp add: execute_created_def Let_def)
  next
    case compile: (Inr cmp)
    show ?thesis
    proof (cases "w_inlineCss w (ct_html cmp)")
      case (Inl e)
      then show ?thesis
        using reply compile not_inlined by (simp add: execute_created_def Let_def)
    next
      case (Inr html)
      then show ?thesis
        using reply compile compiled by (simp add: execute_created_def Let_def)
    qed
  qed
qed

lemma execute_created_quiet [simp]:
  "created_messages (fst (execute_created w c s integ st email ovr pay msg)) = []"
  "entries_with_detail LAYOUT_NOT_FOUND (fst (execute_created w c s integ st email ovr pay msg)) = []"
  by (cases rule: execute_created_cases [where w=w and c=c and st=st and msg=msg and pay=pay and s=s and integ=integ and email=email and ovr=ovr]; simp)+

lemma execute_created_sends:
  "length (mail_sends (fst (execute_created w c s integ st email ovr pay msg))) \<le> Suc 0"
  "length (send_results (fst (execute_created w c s integ st email ovr pay msg))) \<le> Suc 0"
  by (cases rule: execute_created_cases [where w=w and c=c and st=st and msg=msg and pay=pay and s=s and integ=integ and email=email and ovr=ovr];
      simp add: execute_compiled_sends)+

lemma execute_created_success:
  "entries_with_status SUCCESS (fst (execute_created w c s integ st email ovr pay msg)) =
     map (success_entry msg c)
       (send_results (fst (execute_created w c s integ st email ovr pay msg)))"
  by (cases rule: execute_created_cases [where w=w and c=c and st=st and msg=msg and pay=pay and s=s and integ=integ and email=email and ovr=ovr];
      simp add: execute_compiled_success)

lemma execute_created_identifier_updates:
  "identifier_updates (fst (execute_created w c s integ st email ovr pay msg)) =
     concat (map (identifier_update msg c)
       (send_results (fst (execute_created w c s integ st email ovr pay msg))))"
  by (cases rule: execute_created_cases [where w=w and c=c and st=st and msg=msg and pay=pay and s=s and integ=integ and email=email and ovr=ovr];
      simp add: execute_compiled_updates)

lemma execute_created_updates:
  "message_updates (fst (execute_created w c s integ st email ovr pay msg)) =
     content_updates (fst (execute_created w c s integ st email ovr pay msg))
       @ identifier_updates (fst (execute_created w c s integ st email ovr pay msg))"
  by (cases rule: execute_created_cases [where w=w and c=c and st=st and msg=msg and pay=pay and s=s and integ=integ and email=email and ovr=ovr];
      simp add: execute_compiled_updates store_content_updates)

lemma execute_created_content_updates:
  "content_updates (fst (execute_created w c s integ st email ovr pay msg)) = []
   \<or> (w_storeContent w \<and> (\<exists>compiled :: compiled_template.
        content_updates (fst (execute_created w c s integ st email ovr pay msg)) =
          [(\<lparr> q_id = msg_id msg, q_environmentId = cmd_environmentId c \<rparr>,
            [(''subject'', ct_subject compiled), (''content'', ct_content compiled)])]))"
proof (cases "w_storeContent w")
  case False
  then show ?thesis
    by (cases rule: execute_created_cases [where w=w and c=c and st=st and msg=msg and pay=pay and s=s and integ=integ and email=email and ovr=ovr];
        simp add: store_content_updates)
next
  case True
  show ?thesis
  proof (cases rule: execute_created_cases [where w=w and c=c and st=st and msg=msg and pay=pay and s=s and integ=integ and email=email and ovr=ovr])
    case (raised err)
    then show ?thesis by simp
  next
    case (not_compiled replyTo e)
    then show ?thesis by simp
  next
    case (not_inlined replyTo compiled e)
    with True have "content_updates (fst (execute_created w c s integ st email ovr pay msg)) =
        [(\<lparr> q_id = msg_id msg, q_environmentId = cmd_environmentId c \<rparr>,
          [(''subject'', ct_subject compiled), (''content'', ct_content compiled)])]"
      by (simp add: store_content_updates)
    with True show ?thesis by blast
  next
    case (compiled replyTo compiled html)
    with True have "content_updates (fst (execute_created w c s integ st email ovr pay msg)) =
        [(\<lparr> q_id = msg_id msg, q_environmentId = cmd_environmentId c \<rparr>,
          [(''subject'', ct_subject compiled), (''content'', ct_content compiled)])]"
      by (simp add: store_content_updates)
    with True show ?thesis by blast
  qed
qed

lemma execute_created_compile_calls:
  "set (map (\<lambda>cc. tp_layoutId (cc_payload cc))
     (compile_calls (fst (execute_created w c s integ st email ovr pay msg)))) \<subseteq> {tp_layoutId pay}"
  "length (compile_calls (fst (execute_created w c s integ st email ovr pay msg))) \<le> Suc 0"
  "snd (execute_created w c s integ st email ovr pay msg) = Inr () \<Longrightarrow>
     length (compile_calls (fst (execute_created w c s integ st email ovr pay msg))) = Suc 0"
  by (cases rule: execute_created_cases [where w=w and c=c and st=st and msg=msg and pay=pay and s=s and integ=integ and email=email and ovr=ovr]; simp)+

lemma execute_created_content:
  "content_updates (fst (execute_created w c s integ st email ovr pay msg)) =
     concat (map (content_update w c msg)
       (compile_calls (fst (execute_created w c s integ st email ovr pay msg))))"
  by (cases rule: execute_created_cases [where w=w and c=c and st=st and msg=msg and pay=pay and s=s and integ=integ and email=email and ovr=ovr];
      simp add: content_update_def store_content_updates)

lemma execute_created_sent_compiled:
  assumes "send_results (fst (execute_created w c s integ st email ovr pay msg)) \<noteq> []"
  shows "\<exists>cc compiled.
      compile_calls (fst (execute_created w c s integ st email ovr pay msg)) = [cc]
      \<and> w_compile w cc = Inr compiled"
  using assms
  by (cases rule: execute_created_cases [where w=w and c=c and st=st and msg=msg and pay=pay and s=s and integ=integ and email=email and ovr=ovr];
      simp)

lemma execute_created_error_status:
  "length (error_status_calls (fst (execute_created w c s integ st email ovr pay msg))) \<le> Suc 0"
  "send_results (fst (execute_created w c s integ st email ovr pay msg)) \<noteq> [] \<Longrightarrow>
     error_status_calls (fst (execute_created w c s integ st email ovr pay msg)) = []"
  by (cases rule: execute_created_cases [where w=w and c=c and st=st and msg=msg and pay=pay and s=s and integ=integ and email=email and ovr=ovr];
      simp add: execute_compiled_error_status)+

lemma execute_created_warnings:
  "entries_with_status WARNING (fst (execute_created w c s integ st email ovr pay msg)) =
     entries_with_status WARNING (fst (reply_resolution w c st msg))"
  by (cases rule: execute_created_cases [where w=w and c=c and st=st and msg=msg and pay=pay and s=s and integ=integ and email=email and ovr=ovr];
      simp)

lemma execute_created_raised:
  "snd (reply_resolution w c st msg) = Inl err \<Longrightarrow>
     execute_created w c s integ st email ovr pay msg = (fst (reply_resolution w c st msg), Inl err)"
  by (simp add: execute_created_def Let_def)

lemma execute_created_compiles:
  "snd (reply_resolution w c st msg) = Inr replyTo \<Longrightarrow>
     compile_calls (fst (execute_created w c s integ st email ovr pay msg)) =
       [compile_command_of c (with_reply_to pay replyTo)]"
  by (cases rule: execute_created_cases [where w=w and c=c and st=st and msg=msg and pay=pay and s=s and integ=integ and email=email and ovr=ovr];
      simp)

subsection \<open>The results of \<^verbatim>\<open>getReplyTo\<close>\<close>

lemma getReplyTo_no_url:
  "cmd_step c = Some st \<Longrightarrow> \<not> truthy (reply_callback_url st) \<Longrightarrow>
     getReplyTo w c m =
       ([log_add c (Some m) REPLY_CALLBACK_MISSING_REPLAY_CALLBACK_URL WARNING None], Inr None)"
  by (simp add: getReplyTo_def)

lemma getReplyTo_no_environment:
  "cmd_step c = Some st \<Longrightarrow> truthy (reply_callback_url st) \<Longrightarrow>
   w_environments w (cmd_environmentId c) = None \<Longrightarrow>
     getReplyTo w c m =
       ([], Inl (PlatformException (''Environment '' @ cmd_environmentId c @ '' is not found'')))"
  by (simp add: getReplyTo_def)

lemma getReplyTo_unconfigured:
  "cmd_step c = Some st \<Longrightarrow> truthy (reply_callback_url st) \<Longrightarrow>
   w_environments w (cmd_environmentId c) = Some environment \<Longrightarrow>
   \<not> (mx_configured environment \<and> truthy (inbound_parse_domain environment)) \<Longrightarrow>
     getReplyTo w c m =
       ([log_add c (Some m) (reply_warning_detail environment) WARNING None], Inr None)"
  by (auto simp: getReplyTo_def Let_def split: option.split)

lemma getReplyTo_configured:
  "cmd_step c = Some st \<Longrightarrow> truthy (reply_callback_url st) \<Longrightarrow>
   w_environments w (cmd_environmentId c) = Some environment \<Longrightarrow>
   mx_configured environment \<Longrightarrow> inbound_parse_domain environment = Some d \<Longrightarrow> d \<noteq> [] \<Longrightarrow>
     getReplyTo w c m =
       ([], Inr (Some (getReplyToAddress (cmd_transactionId c) (env_id environment) d)))"
  by (simp add: getReplyTo_def Let_def truthy_def)

lemma reply_resolution_raised:
  assumes "cmd_step c = Some st" and "snd (reply_resolution w c st msg) = Inl err"
  shows "reply_active st \<and> truthy (reply_callback_url st)
    \<and> w_environments w (cmd_environmentId c) = None"
  using assms
  by (auto simp: reply_resolution_def getReplyTo_def Let_def split: if_splits option.splits)

text \<open>Without an address, once the template is compiled and inlined.\<close>

lemma execute_created_no_address:
  assumes "\<not> truthy email" and "cmd_step c = Some st"
    and "reply_active st \<longrightarrow> truthy (reply_callback_url st) \<longrightarrow>
           w_environments w (cmd_environmentId c) \<noteq> None"
    and "\<And>cc e. w_compile w cc \<noteq> Inl e" and "\<And>html e. w_inlineCss w html \<noteq> Inl e"
  shows "snd (execute_created w c s integ st email ovr pay msg) = Inr ()"
    and "mail_sends (fst (execute_created w c s integ st email ovr pay msg)) = []"
    and "entries_with FAILED SUBSCRIBER_NO_CHANNEL_DETAILS
           (fst (execute_created w c s integ st email ovr pay msg)) =
         [create_details c (Some (msg_id msg)) SUBSCRIBER_NO_CHANNEL_DETAILS FAILED None]"
proof -
  have "snd (execute_created w c s integ st email ovr pay msg) = Inr ()
    \<and> mail_sends (fst (execute_created w c s integ st email ovr pay msg)) = []
    \<and> entries_with FAILED SUBSCRIBER_NO_CHANNEL_DETAILS
           (fst (execute_created w c s integ st email ovr pay msg)) =
         [create_details c (Some (msg_id msg)) SUBSCRIBER_NO_CHANNEL_DETAILS FAILED None]"
  proof (cases rule: execute_created_cases [where w=w and c=c and st=st and msg=msg and pay=pay and s=s and integ=integ and email=email and ovr=ovr])
    case (raised err)
    with reply_resolution_raised [OF assms(2) raised(1)] assms(3) show ?thesis by simp
  next
    case (not_compiled replyTo e)
    with assms(4) show ?thesis by simp
  next
    case (not_inlined replyTo compiled e)
    with assms(5) show ?thesis by simp
  next
    case (compiled replyTo compiled html)
    then show ?thesis by (simp add: execute_compiled_no_address [OF assms(1)])
  qed
  then show "snd (execute_created w c s integ st email ovr pay msg) = Inr ()"
    and "mail_sends (fst (execute_created w c s integ st email ovr pay msg)) = []"
    and "entries_with FAILED SUBSCRIBER_NO_CHANNEL_DETAILS
           (fst (execute_created w c s integ st email ovr pay msg)) =
         [create_details c (Some (msg_id msg)) SUBSCRIBER_NO_CHANNEL_DETAILS FAILED None]"
    by simp_all
qed

subsection \<open>After the selection of the integration: lines 208-272\<close>

lemma execute_resolved_shape:
  obtains pay where
    "execute_resolved w c s integ st t email =
       ([HandleTenantExecution (cmd_job c),
           SendSelectedIntegrationExecution (cmd_job c) integ]
          @ fst (getOverrideLayoutId w c)
          @ [MessageCreate (new_message c t integ email (merged_overrides c integ))]
          @ fst (execute_created w c s integ st email (merged_overrides c integ) pay
                   (stored_message w (new_message c t integ email (merged_overrides c integ)))),
        snd (execute_created w c s integ st email (merged_overrides c integ) pay
               (stored_message w (new_message c t integ email (merged_overrides c integ)))))"
    "tp_layoutId pay =
       (case snd (getOverrideLayoutId w c) of None \<Rightarrow> tpl_layoutId t | Some l \<Rightarrow> Some l)"
    "sv_reply_to_address (cv_step (tp_payload pay)) = None"
  by (simp add: execute_resolved_def Let_def compile_payload_def)

lemma getOverrideLayoutId_no_updates [simp]:
  "content_updates (fst (getOverrideLayoutId w c)) = []"
  "identifier_updates (fst (getOverrideLayoutId w c)) = []"
  by (simp_all add: content_updates_def identifier_updates_def)

lemma execute_resolved_created:
  "created_messages (fst (execute_resolved w c s integ st t email)) =
     [new_message c t integ email (merged_overrides c integ)]"
  by (rule execute_resolved_shape [of w c s integ st t email]) simp

lemma execute_resolved_sends:
  "length (mail_sends (fst (execute_resolved w c s integ st t email))) \<le> Suc 0"
  "length (send_results (fst (execute_resolved w c s integ st t email))) \<le> Suc 0"
  by (rule execute_resolved_shape [of w c s integ st t email]; simp add: execute_created_sends)+

lemma execute_resolved_success:
  "entries_with_status SUCCESS (fst (execute_resolved w c s integ st t email)) =
     map (success_entry (stored_message w (new_message c t integ email (merged_overrides c integ))) c)
       (send_results (fst (execute_resolved w c s integ st t email)))"
  by (rule execute_resolved_shape [of w c s integ st t email])
     (simp add: execute_created_success)

lemma execute_resolved_identifier_updates:
  "identifier_updates (fst (execute_resolved w c s integ st t email)) =
     concat (map (identifier_update
                    (stored_message w (new_message c t integ email (merged_overrides c integ))) c)
       (send_results (fst (execute_resolved w c s integ st t email))))"
  by (rule execute_resolved_shape [of w c s integ st t email])
     (simp add: execute_created_identifier_updates)

lemma execute_resolved_updates:
  "message_updates (fst (execute_resolved w c s integ st t email)) =
     content_updates (fst (execute_resolved w c s integ st t email))
       @ identifier_updates (fst (execute_resolved w c s integ st t email))"
  by (rule execute_resolved_shape [of w c s integ st t email])
     (simp add: execute_created_updates)

lemma execute_resolved_content_updates:
  "content_updates (fst (execute_resolved w c s integ st t email)) = []
   \<or> (w_storeContent w \<and> (\<exists>compiled :: compiled_template.
        content_updates (fst (execute_resolved w c s integ st t email)) =
          [(\<lparr> q_id = w_new_message_id w (new_message c t integ email (merged_overrides c integ)),
               q_environmentId = cmd_environmentId c \<rparr>,
            [(''subject'', ct_subject compiled), (''content'', ct_content compiled)])]))"
proof (rule execute_resolved_shape [of w c s integ st t email])
  fix pay
  assume shape: "execute_resolved w c s integ st t email =
       ([HandleTenantExecution (cmd_job c),
           SendSelectedIntegrationExecution (cmd_job c) integ]
          @ fst (getOverrideLayoutId w c)
          @ [MessageCreate (new_message c t integ email (merged_overrides c integ))]
          @ fst (execute_created w c s integ st email (merged_overrides c integ) pay
                   (stored_message w (new_message c t integ email (merged_overrides c integ)))),
        snd (execute_created w c s integ st email (merged_overrides c integ) pay
               (stored_message w (new_message c t integ email (merged_overrides c integ)))))"
  show ?thesis
    using execute_created_content_updates
      [of w c s integ st email "merged_overrides c integ" pay
          "stored_message w (new_message c t integ email (merged_overrides c integ))"]
    by (simp add: shape)
qed

subsection \<open>The ways through \<open>execute\<close>: lines 131-206\<close>

lemma execute_cases:
  obtains
    (no_subscriber)
      "w_subscribers w (cmd_subscriberId c) (cmd_environmentId c) = None"
      "execute w c =
         ([], Inl (PlatformException (''Subscriber '' @ cmd_subscriberId c @ '' not found'')))"
  | (selection_raised) s e where
      "w_subscribers w (cmd_subscriberId c) (cmd_environmentId c) = Some s"
      "w_getIntegration w (integration_query c) = Inl e"
      "execute w c =
         ([log_add c None LIMIT_PASSED_NOVU_INTEGRATION FAILED (Some (RawMessage e))], Inr ())"
  | (no_step) s selected where
      "w_subscribers w (cmd_subscriberId c) (cmd_environmentId c) = Some s"
      "w_getIntegration w (integration_query c) = Inr selected"
      "cmd_step c = None"
      "execute w c = ([], Inl (PlatformException ''Email channel step not found''))"
  | (no_template) s selected st where
      "w_subscribers w (cmd_subscriberId c) (cmd_environmentId c) = Some s"
      "w_getIntegration w (integration_query c) = Inr selected"
      "cmd_step c = Some st"
      "step_template st = None"
      "execute w c = ([], Inl (PlatformException ''Email channel template not found''))"
  | (no_integration) s st t where
      "w_subscribers w (cmd_subscriberId c) (cmd_environmentId c) = Some s"
      "w_getIntegration w (integration_query c) = Inr None"
      "cmd_step c = Some st"
      "step_template st = Some t"
      "execute w c =
         ([log_add c None SUBSCRIBER_NO_ACTIVE_INTEGRATION FAILED
             (if truthy (sic_identifier (integration_query c))
              then map_option RawIntegrationIdentifier (sic_identifier (integration_query c))
              else None)], Inr ())"
  | (resolved) s integ st t where
      "w_subscribers w (cmd_subscriberId c) (cmd_environmentId c) = Some s"
      "w_getIntegration w (integration_query c) = Inr (Some integ)"
      "cmd_step c = Some st"
      "step_template st = Some t"
      "execute w c =
         execute_resolved w c s integ st t (or_else (pl_email (cmd_payload c)) (sub_email s))"
proof (cases "w_subscribers w (cmd_subscriberId c) (cmd_environmentId c)")
  case None
  then show ?thesis using no_subscriber by (simp add: execute_def)
next
  case sub: (Some s)
  show ?thesis
  proof (cases "w_getIntegration w (integration_query c)")
    case (Inl e)
    then show ?thesis using sub selection_raised by (simp add: execute_def Let_def)
  next
    case sel: (Inr selected)
    show ?thesis
    proof (cases "cmd_step c")
      case None
      then show ?thesis using sub sel no_step by (simp add: execute_def Let_def)
    next
      case step: (Some st)
      show ?thesis
      proof (cases "step_template st")
        case None
        then show ?thesis using sub sel step no_template by (simp add: execute_def Let_def)
      next
        case tpl: (Some t)
        show ?thesis
        proof (cases selected)
          case None
          then show ?thesis
            using sub sel step tpl no_integration [of s st t]
            by (simp add: execute_def Let_def integration_query_def)
        next
          case (Some integ)
          then show ?thesis
            using sub sel step tpl resolved [of s integ st t] by (simp add: execute_def Let_def)
        qed
      qed
    qed
  qed
qed

subsection \<open>Override merging\<close>

lemma object_assign_right: "k \<in> dom b \<Longrightarrow> object_assign a b k = b k"
  by (auto simp: object_assign_def map_add_def split: option.splits)

text \<open>
  Claim C5. For every channel-scoped override object (\<^verbatim>\<open>overrides.email\<close>) and every
  provider-scoped override object (\<^verbatim>\<open>overrides[providerId]\<close>), a key present in both is
  bound in the merged override map to the provider-scoped value; and the Message record that
  the pipeline creates next carries that merged map, so its \<^verbatim>\<open>overrides\<close> bind the key
  to the provider-scoped value too.
\<close>

theorem provider_override_wins:
  assumes "k \<in> dom (scoped_overrides command ''email'')"
    and "k \<in> dom (scoped_overrides command (int_providerId integ))"
  shows "merged_overrides command integ k = scoped_overrides command (int_providerId integ) k
    \<and> map (\<lambda>data. msg_overrides data k)
          (created_messages (fst (execute_resolved w command s integ st t email))) =
        [scoped_overrides command (int_providerId integ) k]"
  using assms
  by (simp add: execute_resolved_created merged_overrides_def object_assign_right
      new_message_def)

theorem provider_override_wins_witness:
  "''senderName'' \<in> dom (scoped_overrides sample_command ''email'')
   \<and> ''senderName'' \<in> dom (scoped_overrides sample_command (int_providerId sample_integration))
   \<and> scoped_overrides sample_command ''email'' ''senderName'' = Some (OStr ''Channel'')
   \<and> merged_overrides sample_command sample_integration ''senderName'' = Some (OStr ''Provider'')"
proof -
  have a: "''senderName'' \<in> dom (scoped_overrides sample_command ''email'')"
    by (simp add: scoped_overrides_def sample_command_def)
  have b: "''senderName'' \<in> dom (scoped_overrides sample_command (int_providerId sample_integration))"
    by (simp add: scoped_overrides_def sample_command_def sample_integration_def)
  have c: "scoped_overrides sample_command (int_providerId sample_integration) ''senderName''
      = Some (OStr ''Provider'')"
    by (simp add: scoped_overrides_def sample_command_def sample_integration_def)
  have d: "scoped_overrides sample_command ''email'' ''senderName'' = Some (OStr ''Channel'')"
    by (simp add: scoped_overrides_def sample_command_def)
  from provider_override_wins [OF a b] a b c d show ?thesis by simp
qed

subsection \<open>\<^verbatim>\<open>createMailData\<close>\<close>

text \<open>
  The left fold of \<open>filterDuplicate\<close> from an accumulator keeps the accumulator and adds,
  in first-seen order, the elements that are not in it yet.
\<close>

lemma foldl_filterDuplicate:
  "foldl filterDuplicate acc xs = acc @ dedup_first_seen (filter (\<lambda>x. x \<notin> set acc) xs)"
proof (induction xs arbitrary: acc)
  case Nil
  then show ?case by simp
next
  case (Cons x xs)
  have later: "filter (\<lambda>y. y \<notin> set (acc @ [x])) xs =
      filter (\<lambda>y. y \<noteq> x) (filter (\<lambda>y. y \<notin> set acc) xs)"
    by (induction xs) auto
  show ?case
  proof (cases "x \<in> set acc")
    case True
    then show ?thesis using Cons.IH [of acc] by (simp add: filterDuplicate_def)
  next
    case False
    then show ?thesis using Cons.IH [of "acc @ [x]"] later by (simp add: filterDuplicate_def)
  qed
qed

text \<open>The specification's deduplication keeps every element once.\<close>

lemma set_dedup_first_seen: "set (dedup_first_seen xs) = set xs"
  by (induction xs rule: dedup_first_seen.induct) auto

lemma distinct_dedup_first_seen: "distinct (dedup_first_seen xs)"
  by (induction xs rule: dedup_first_seen.induct) (auto simp: set_dedup_first_seen)

text \<open>
  Claim C6. For every base recipient (one address or a list of addresses) and every list of
  override-supplied recipients, \<^verbatim>\<open>createMailData\<close> returns as \<^verbatim>\<open>to\<close> the base
  recipients followed by the override recipients, with duplicates removed and first-seen
  order preserved; with no override recipients it is the base recipients deduplicated. In
  particular the base \<^verbatim>\<open>a@x.com\<close> with the overrides \<^verbatim>\<open>[a@x.com, b@x.com]\<close> yields
  \<^verbatim>\<open>[a@x.com, b@x.com]\<close>.
\<close>

theorem createMailData_recipients:
  "mail_to (createMailData options (ovr(''to'' \<mapsto> OList extra))) =
     ToArray (dedup_first_seen (recipient_list (mail_to options) @ extra))
   \<and> mail_to (createMailData options (ovr(''to'' := None))) =
       ToArray (dedup_first_seen (recipient_list (mail_to options)))
   \<and> mail_to (createMailData (options \<lparr> mail_to := ToString ''a@x.com'' \<rparr>)
        (ovr(''to'' \<mapsto> OList [''a@x.com'', ''b@x.com'']))) = ToArray [''a@x.com'', ''b@x.com'']"
  by (simp add: createMailData_def Let_def spread_recipients_def recipient_list_def
      foldl_filterDuplicate split: recipients.split)



subsection \<open>The reply address\<close>

text \<open>
  Claim C7. For all strings \<open>transactionId\<close>, \<open>environmentId\<close> and \<open>inboundParseDomain\<close>
  (the non-empty ones among them), \<^verbatim>\<open>getReplyToAddress\<close> is a function of its three
  arguments that returns exactly \<^verbatim>\<open>parse+\<close>, the transaction identifier, \<^verbatim>\<open>-nv-e=\<close>,
  the environment identifier, \<^verbatim>\<open>@\<close> and the domain, with nothing encoded; for
  \<^verbatim>\<open>tx123\<close>, \<^verbatim>\<open>env456\<close> and \<^verbatim>\<open>reply.example.com\<close> it returns
  \<^verbatim>\<open>parse+tx123-nv-e=env456@reply.example.com\<close>.
\<close>

theorem getReplyToAddress_format:
  "getReplyToAddress transactionId environmentId inboundParseDomain =
     ''parse+'' @ transactionId @ ''-nv-e='' @ environmentId @ ''@'' @ inboundParseDomain
   \<and> getReplyToAddress ''tx123'' ''env456'' ''reply.example.com'' =
       ''parse+tx123-nv-e=env456@reply.example.com''"
  by (simp add: getReplyToAddress_def)

subsection \<open>Evaluating the pipeline on the samples\<close>

lemmas pipeline_defs =
  execute_def execute_resolved_def execute_created_def execute_compiled_def sendMessage_def
  sendErrors_def reply_resolution_def reply_active_def getOverrideLayoutId_def getReplyTo_def
  integration_query_def scoped_overrides_def get_str_def or_else_def truthy_def
  store_content_def buildFactoryIntegration_def log_add_def Let_def

lemmas sample_defs =
  sample_world_def sample_command_def sample_step_def sample_template_def
  sample_subscriber_def sample_integration_def sample_environment_def
  world_without_integration_def world_selection_raises_def world_without_address_def
  world_not_storing_def command_without_step_def command_with_layout_def

subsection \<open>Integration selection\<close>

text \<open>
  Claim C4, as stated, fails: the step and its template are tested between the selection
  and the test for an integration (lines 172-182). When the selection yields no integration
  and the job has no step, the pipeline raises and records nothing.
\<close>

theorem no_integration_counterexample:
  "w_getIntegration world_without_integration (integration_query command_without_step) = Inr None
   \<and> snd (execute world_without_integration command_without_step) =
       Inl (PlatformException ''Email channel step not found'')
   \<and> audit_entries (fst (execute world_without_integration command_without_step)) = []"
  by (simp add: pipeline_defs sample_defs)

text \<open>
  Claim C4, amended. For every execution where the subscriber is found, the selection yields
  no active integration, and the step and its template are present, the pipeline returns
  without creating a Message record and without raising, and records exactly one audit
  entry, \<^verbatim>\<open>FAILED\<close> with the code \<^verbatim>\<open>SUBSCRIBER_NO_ACTIVE_INTEGRATION\<close> (and the
  integration identifier of the overrides as its raw detail, when one was supplied). For every
  execution where the subscriber is found and the selection raises, the pipeline returns
  without creating a Message record and without raising, and records exactly one audit
  entry, \<^verbatim>\<open>FAILED\<close> with the code \<^verbatim>\<open>LIMIT_PASSED_NOVU_INTEGRATION\<close> and the error's
  message.
\<close>

theorem integration_failures_recorded:
  "(w_subscribers w (cmd_subscriberId c) (cmd_environmentId c) = Some s
      \<and> w_getIntegration w (integration_query c) = Inr None
      \<and> cmd_step c = Some st \<and> step_template st = Some t
    \<longrightarrow> snd (execute w c) = Inr ()
        \<and> created_messages (fst (execute w c)) = []
        \<and> audit_entries (fst (execute w c)) =
            [create_details c None SUBSCRIBER_NO_ACTIVE_INTEGRATION FAILED
               (if truthy (sic_identifier (integration_query c))
                then map_option RawIntegrationIdentifier (sic_identifier (integration_query c))
                else None)])
   \<and> (w_subscribers w (cmd_subscriberId c) (cmd_environmentId c) = Some s
      \<and> w_getIntegration w (integration_query c) = Inl e
    \<longrightarrow> snd (execute w c) = Inr ()
        \<and> created_messages (fst (execute w c)) = []
        \<and> audit_entries (fst (execute w c)) =
            [create_details c None LIMIT_PASSED_NOVU_INTEGRATION FAILED (Some (RawMessage e))])"
  by (cases rule: execute_cases [of w c]) auto

theorem integration_failures_recorded_witness:
  "snd (execute world_without_integration sample_command) = Inr ()
   \<and> created_messages (fst (execute world_without_integration sample_command)) = []
   \<and> map (\<lambda>entry. (ed_status entry, ed_detail entry))
        (audit_entries (fst (execute world_without_integration sample_command))) =
       [(FAILED, SUBSCRIBER_NO_ACTIVE_INTEGRATION)]
   \<and> snd (execute world_selection_raises sample_command) = Inr ()
   \<and> created_messages (fst (execute world_selection_raises sample_command)) = []
   \<and> map (\<lambda>entry. (ed_status entry, ed_detail entry))
        (audit_entries (fst (execute world_selection_raises sample_command))) =
       [(FAILED, LIMIT_PASSED_NOVU_INTEGRATION)]"
proof -
  have a: "w_subscribers world_without_integration (cmd_subscriberId sample_command)
      (cmd_environmentId sample_command) = Some sample_subscriber
    \<and> w_getIntegration world_without_integration (integration_query sample_command) = Inr None
    \<and> cmd_step sample_command = Some sample_step
    \<and> step_template sample_step = Some sample_template"
    by (simp add: sample_defs)
  have b: "w_subscribers world_selection_raises (cmd_subscriberId sample_command)
      (cmd_environmentId sample_command) = Some sample_subscriber
    \<and> w_getIntegration world_selection_raises (integration_query sample_command) =
        Inl ''Limit for the email provider was reached''"
    by (simp add: sample_defs)
  from a b
    integration_failures_recorded [of world_without_integration sample_command
      sample_subscriber sample_step sample_template "''none''"]
    integration_failures_recorded [of world_selection_raises sample_command
      sample_subscriber sample_step sample_template "''Limit for the email provider was reached''"]
  show ?thesis by simp
qed

subsection \<open>Dispatch\<close>

text \<open>
  Claim C9. For every execution where the provider handler's send succeeds with a result:
  one Message record was created; exactly one \<^verbatim>\<open>SUCCESS\<close> audit entry is recorded, with
  the code \<^verbatim>\<open>MESSAGE_SENT\<close>, the record's identifier and the provider's result as raw
  detail; and when the result has a non-empty \<^verbatim>\<open>id\<close>, exactly one update sets the
  \<^verbatim>\<open>identifier\<close> of that record to it, while with an absent or empty \<^verbatim>\<open>id\<close> no
  update of the identifier is made.
\<close>

theorem successful_dispatch_recorded:
  assumes "result \<in> set (send_results (fst (execute w c)))"
  shows "\<exists>data. created_messages (fst (execute w c)) = [data]
    \<and> send_results (fst (execute w c)) = [result]
    \<and> entries_with_status SUCCESS (fst (execute w c)) =
        [create_details c (Some (w_new_message_id w data)) MESSAGE_SENT SUCCESS
           (Some (RawResult result))]
    \<and> identifier_updates (fst (execute w c)) =
        (case sr_id result of
           None \<Rightarrow> []
         | Some ident \<Rightarrow>
             if ident = [] then []
             else [(\<lparr> q_id = w_new_message_id w data, q_environmentId = cmd_environmentId c \<rparr>,
                    [(''identifier'', ident)])])"
proof (cases rule: execute_cases [of w c])
  case (resolved s integ st t)
  let ?email = "or_else (pl_email (cmd_payload c)) (sub_email s)"
  let ?data = "new_message c t integ ?email (merged_overrides c integ)"
  let ?run = "fst (execute_resolved w c s integ st t ?email)"
  have one: "send_results ?run = [result]"
    using assms resolved(5) execute_resolved_sends(2) [of w c s integ st t ?email]
    by (cases "send_results ?run") auto
  have "created_messages ?run = [?data]"
    by (rule execute_resolved_created)
  moreover have "entries_with_status SUCCESS ?run =
      [create_details c (Some (w_new_message_id w ?data)) MESSAGE_SENT SUCCESS
         (Some (RawResult result))]"
    by (simp add: execute_resolved_success one success_entry_def)
  moreover have "identifier_updates ?run =
      (case sr_id result of
         None \<Rightarrow> []
       | Some ident \<Rightarrow>
           if ident = [] then []
           else [(\<lparr> q_id = w_new_message_id w ?data, q_environmentId = cmd_environmentId c \<rparr>,
                  [(''identifier'', ident)])])"
    by (simp add: execute_resolved_identifier_updates one identifier_update_def
        split: option.split)
  ultimately show ?thesis using one resolved(5) by simp
qed (use assms in auto)

theorem successful_dispatch_recorded_witness:
  "send_results (fst (execute sample_world sample_command)) =
     [\<lparr> sr_id = Some ''prov-1'', sr_date = None \<rparr>]
   \<and> map (\<lambda>entry. (ed_messageId entry, ed_detail entry, ed_raw entry))
        (entries_with_status SUCCESS (fst (execute sample_world sample_command))) =
       [(Some ''msg-1'', MESSAGE_SENT, Some (RawResult \<lparr> sr_id = Some ''prov-1'', sr_date = None \<rparr>))]
   \<and> identifier_updates (fst (execute sample_world sample_command)) =
       [(\<lparr> q_id = ''msg-1'', q_environmentId = ''env456'' \<rparr>, [(''identifier'', ''prov-1'')])]"
proof -
  have sent: "send_results (fst (execute sample_world sample_command)) =
      [\<lparr> sr_id = Some ''prov-1'', sr_date = None \<rparr>]"
    by (simp add: pipeline_defs sample_defs)
  then have "\<lparr> sr_id = Some ''prov-1'', sr_date = None \<rparr>
      \<in> set (send_results (fst (execute sample_world sample_command)))"
    by simp
  from successful_dispatch_recorded [OF this] sent show ?thesis
    by (auto simp: sample_world_def sample_command_def)
qed

subsection \<open>The life of the Message record\<close>

text \<open>What the part of the pipeline that follows the creation does to the record.\<close>

lemma execute_resolved_lifecycle:
  fixes w c s integ st t email
  defines "data \<equiv> new_message c t integ email (merged_overrides c integ)"
  defines "run \<equiv> fst (execute_resolved w c s integ st t email)"
  shows "created_messages run = [data]"
    and "length (compile_calls run) \<le> Suc 0"
    and "length (send_results run) \<le> Suc 0"
    and "length (error_status_calls run) \<le> Suc 0"
    and "message_updates run = content_updates run @ identifier_updates run"
    and "content_updates run =
           concat (map (content_update w c (stored_message w data)) (compile_calls run))"
    and "identifier_updates run =
           concat (map (identifier_update (stored_message w data) c) (send_results run))"
    and "send_results run \<noteq> [] \<longrightarrow> error_status_calls run = []
           \<and> (\<exists>cc compiled. compile_calls run = [cc] \<and> w_compile w cc = Inr compiled)"
proof -
  have all: "created_messages run = [data]
    \<and> length (compile_calls run) \<le> Suc 0
    \<and> length (send_results run) \<le> Suc 0
    \<and> length (error_status_calls run) \<le> Suc 0
    \<and> message_updates run = content_updates run @ identifier_updates run
    \<and> content_updates run =
           concat (map (content_update w c (stored_message w data)) (compile_calls run))
    \<and> identifier_updates run =
           concat (map (identifier_update (stored_message w data) c) (send_results run))
    \<and> (send_results run \<noteq> [] \<longrightarrow> error_status_calls run = []
           \<and> (\<exists>cc compiled. compile_calls run = [cc] \<and> w_compile w cc = Inr compiled))"
  proof (rule execute_resolved_shape [of w c s integ st t email])
    fix pay
    let ?created = "execute_created w c s integ st email (merged_overrides c integ) pay
        (stored_message w data)"
    assume "execute_resolved w c s integ st t email =
       ([HandleTenantExecution (cmd_job c),
         SendSelectedIntegrationExecution (cmd_job c) integ]
          @ fst (getOverrideLayoutId w c)
          @ [MessageCreate (new_message c t integ email (merged_overrides c integ))]
          @ fst (execute_created w c s integ st email (merged_overrides c integ) pay
                   (stored_message w (new_message c t integ email (merged_overrides c integ)))),
        snd (execute_created w c s integ st email (merged_overrides c integ) pay
               (stored_message w (new_message c t integ email (merged_overrides c integ)))))"
    then have shape: "run =
        [HandleTenantExecution (cmd_job c), SendSelectedIntegrationExecution (cmd_job c) integ]
          @ fst (getOverrideLayoutId w c) @ [MessageCreate data] @ fst ?created"
      by (simp add: run_def data_def)
    note created =
      execute_created_compile_calls(2) [of w c s integ st email "merged_overrides c integ" pay
        "stored_message w data"]
      execute_created_sends(2) [of w c s integ st email "merged_overrides c integ" pay
        "stored_message w data"]
      execute_created_error_status [of w c s integ st email "merged_overrides c integ" pay
        "stored_message w data"]
      execute_created_updates [of w c s integ st email "merged_overrides c integ" pay
        "stored_message w data"]
      execute_created_content [of w c s integ st email "merged_overrides c integ" pay
        "stored_message w data"]
      execute_created_identifier_updates [of w c s integ st email "merged_overrides c integ"
        pay "stored_message w data"]
    have compiled: "send_results (fst ?created) \<noteq> [] \<Longrightarrow>
        \<exists>cc compiled. compile_calls (fst ?created) = [cc] \<and> w_compile w cc = Inr compiled"
      by (rule execute_created_sent_compiled)
    show ?thesis
      using created compiled by (simp add: shape)
  qed
  then show "created_messages run = [data]"
    and "length (compile_calls run) \<le> Suc 0"
    and "length (send_results run) \<le> Suc 0"
    and "length (error_status_calls run) \<le> Suc 0"
    and "message_updates run = content_updates run @ identifier_updates run"
    and "content_updates run =
           concat (map (content_update w c (stored_message w data)) (compile_calls run))"
    and "identifier_updates run =
           concat (map (identifier_update (stored_message w data) c) (send_results run))"
    and "send_results run \<noteq> [] \<longrightarrow> error_status_calls run = []
           \<and> (\<exists>cc compiled. compile_calls run = [cc] \<and> w_compile w cc = Inr compiled)"
    by blast+
qed

text \<open>
  Claim C3, as stated, fails: the update after compilation is made only when content is
  stored (line 297). With content not stored, the record of a successful delivery is
  updated once.
\<close>

theorem two_updates_counterexample:
  "snd (execute world_not_storing sample_command) = Inr ()
   \<and> length (created_messages (fst (execute world_not_storing sample_command))) = 1
   \<and> message_updates (fst (execute world_not_storing sample_command)) =
       [(\<lparr> q_id = ''msg-1'', q_environmentId = ''env456'' \<rparr>, [(''identifier'', ''prov-1'')])]
   \<and> length (message_updates (fst (execute world_not_storing sample_command))) \<noteq> 2"
  by (simp add: pipeline_defs sample_defs)

text \<open>
  Claim C3, amended. For every execution, the pipeline creates at most one Message record,
  has no call that deletes one, and updates the record it created as follows, and in no
  other way. After compilation it updates \<^verbatim>\<open>subject\<close> and \<^verbatim>\<open>content\<close>, once, exactly
  when the compiler answered with a template and content is stored. After dispatch it
  updates \<^verbatim>\<open>identifier\<close>, once, exactly when the send succeeded with a non-empty
  identifier. The content update comes first, and with content stored and a send that
  succeeded with a non-empty identifier the record is updated exactly twice. Besides these
  updates the record is handed to \<^verbatim>\<open>sendErrorStatus\<close>, a helper whose code is outside
  the given sources: at most once, and never on an execution whose send succeeded.
\<close>

theorem message_record_lifecycle:
  "length (created_messages (fst (execute w c))) \<le> 1
   \<and> length (compile_calls (fst (execute w c))) \<le> 1
   \<and> length (send_results (fst (execute w c))) \<le> 1
   \<and> message_updates (fst (execute w c)) =
       content_updates (fst (execute w c)) @ identifier_updates (fst (execute w c))
   \<and> content_updates (fst (execute w c)) =
       concat (map (\<lambda>data. concat (map (content_update w c (stored_message w data))
                                     (compile_calls (fst (execute w c)))))
                 (created_messages (fst (execute w c))))
   \<and> identifier_updates (fst (execute w c)) =
       concat (map (\<lambda>data. concat (map (identifier_update (stored_message w data) c)
                                     (send_results (fst (execute w c)))))
                 (created_messages (fst (execute w c))))
   \<and> (\<not> w_storeContent w \<longrightarrow> content_updates (fst (execute w c)) = [])
   \<and> (compile_calls (fst (execute w c)) = [] \<longrightarrow> content_updates (fst (execute w c)) = [])
   \<and> (compile_calls (fst (execute w c)) = [cc] \<and> w_compile w cc = Inl e \<longrightarrow>
        content_updates (fst (execute w c)) = [])
   \<and> (w_storeContent w \<and> compile_calls (fst (execute w c)) = [cc]
        \<and> w_compile w cc = Inr compiled \<longrightarrow>
        (\<exists>data. created_messages (fst (execute w c)) = [data]
           \<and> content_updates (fst (execute w c)) =
               [(\<lparr> q_id = w_new_message_id w data, q_environmentId = cmd_environmentId c \<rparr>,
                 [(''subject'', ct_subject compiled), (''content'', ct_content compiled)])]))
   \<and> (send_results (fst (execute w c)) = [] \<longrightarrow> identifier_updates (fst (execute w c)) = [])
   \<and> (send_results (fst (execute w c)) = [result]
        \<and> (sr_id result = None \<or> sr_id result = Some []) \<longrightarrow>
        identifier_updates (fst (execute w c)) = [])
   \<and> (send_results (fst (execute w c)) = [result] \<and> sr_id result = Some ident \<and> ident \<noteq> [] \<longrightarrow>
        (\<exists>data. created_messages (fst (execute w c)) = [data]
           \<and> identifier_updates (fst (execute w c)) =
               [(\<lparr> q_id = w_new_message_id w data, q_environmentId = cmd_environmentId c \<rparr>,
                 [(''identifier'', ident)])]))
   \<and> (w_storeContent w \<and> send_results (fst (execute w c)) = [result]
        \<and> sr_id result = Some ident \<and> ident \<noteq> [] \<longrightarrow>
        (\<exists>data cc' compiled'. created_messages (fst (execute w c)) = [data]
           \<and> compile_calls (fst (execute w c)) = [cc'] \<and> w_compile w cc' = Inr compiled'
           \<and> message_updates (fst (execute w c)) =
               [(\<lparr> q_id = w_new_message_id w data, q_environmentId = cmd_environmentId c \<rparr>,
                 [(''subject'', ct_subject compiled'), (''content'', ct_content compiled')]),
                (\<lparr> q_id = w_new_message_id w data, q_environmentId = cmd_environmentId c \<rparr>,
                 [(''identifier'', ident)])]))
   \<and> length (error_status_calls (fst (execute w c))) \<le> 1
   \<and> (send_results (fst (execute w c)) \<noteq> [] \<longrightarrow> error_status_calls (fst (execute w c)) = [])"
proof (cases rule: execute_cases [of w c])
  case (resolved s integ st t)
  let ?email = "or_else (pl_email (cmd_payload c)) (sub_email s)"
  let ?data = "new_message c t integ ?email (merged_overrides c integ)"
  let ?run = "fst (execute w c)"
  let ?query = "\<lparr> q_id = w_new_message_id w ?data, q_environmentId = cmd_environmentId c \<rparr>"
  have run: "?run = fst (execute_resolved w c s integ st t ?email)"
    by (simp add: resolved(5))
  note life = execute_resolved_lifecycle [of w c s integ st t ?email, folded run]
  have created: "created_messages ?run = [?data]"
    by (rule life(1))
  have split: "message_updates ?run = content_updates ?run @ identifier_updates ?run"
    by (rule life(5))
  have content: "content_updates ?run =
      concat (map (content_update w c (stored_message w ?data)) (compile_calls ?run))"
    by (rule life(6))
  have ident: "identifier_updates ?run =
      concat (map (identifier_update (stored_message w ?data) c) (send_results ?run))"
    by (rule life(7))
  have sent: "send_results ?run \<noteq> [] \<longrightarrow> error_status_calls ?run = []
      \<and> (\<exists>cc compiled. compile_calls ?run = [cc] \<and> w_compile w cc = Inr compiled)"
    by (rule life(8))
  have b0: "length (created_messages ?run) \<le> 1"
    by (simp add: created)
  have b1: "length (compile_calls ?run) \<le> 1"
    using life(2) by simp
  have b2: "length (send_results ?run) \<le> 1"
    using life(3) by simp
  have b3: "length (error_status_calls ?run) \<le> 1"
    using life(4) by simp
  have e1: "content_updates ?run =
      concat (map (\<lambda>data. concat (map (content_update w c (stored_message w data))
                                     (compile_calls ?run)))
                (created_messages ?run))"
    using content by (simp add: created)
  have e2: "identifier_updates ?run =
      concat (map (\<lambda>data. concat (map (identifier_update (stored_message w data) c)
                                     (send_results ?run)))
                (created_messages ?run))"
    using ident by (simp add: created)
  have c1: "\<not> w_storeContent w \<longrightarrow> content_updates ?run = []"
  proof (cases "compile_calls ?run")
    case Nil
    then show ?thesis by (simp add: content)
  next
    case (Cons x xs)
    with b1 have "compile_calls ?run = [x]" by simp
    then show ?thesis by (simp add: content content_update_def split: sum.split)
  qed
  have c2: "compile_calls ?run = [] \<longrightarrow> content_updates ?run = []"
    by (simp add: content)
  have c3: "compile_calls ?run = [cc] \<and> w_compile w cc = Inl e \<longrightarrow> content_updates ?run = []"
    by (simp add: content content_update_def)
  have c4: "w_storeContent w \<and> compile_calls ?run = [cc] \<and> w_compile w cc = Inr compiled \<longrightarrow>
      (\<exists>data. created_messages ?run = [data]
         \<and> content_updates ?run =
             [(\<lparr> q_id = w_new_message_id w data, q_environmentId = cmd_environmentId c \<rparr>,
               [(''subject'', ct_subject compiled), (''content'', ct_content compiled)])])"
  proof (intro impI)
    assume "w_storeContent w \<and> compile_calls ?run = [cc] \<and> w_compile w cc = Inr compiled"
    then have "content_updates ?run =
        [(?query, [(''subject'', ct_subject compiled), (''content'', ct_content compiled)])]"
      by (simp add: content content_update_def)
    with created show "\<exists>data. created_messages ?run = [data]
         \<and> content_updates ?run =
             [(\<lparr> q_id = w_new_message_id w data, q_environmentId = cmd_environmentId c \<rparr>,
               [(''subject'', ct_subject compiled), (''content'', ct_content compiled)])]"
      by blast
  qed
  have i1: "send_results ?run = [] \<longrightarrow> identifier_updates ?run = []"
    by (simp add: ident)
  have i2: "send_results ?run = [result] \<and> (sr_id result = None \<or> sr_id result = Some []) \<longrightarrow>
      identifier_updates ?run = []"
    by (auto simp: ident identifier_update_def)
  have i3: "send_results ?run = [result] \<and> sr_id result = Some ident \<and> ident \<noteq> [] \<longrightarrow>
      (\<exists>data. created_messages ?run = [data]
         \<and> identifier_updates ?run =
             [(\<lparr> q_id = w_new_message_id w data, q_environmentId = cmd_environmentId c \<rparr>,
               [(''identifier'', ident)])])"
  proof (intro impI)
    assume "send_results ?run = [result] \<and> sr_id result = Some ident \<and> ident \<noteq> []"
    then have "identifier_updates ?run = [(?query, [(''identifier'', ident)])]"
      by (simp add: ident identifier_update_def)
    with created show "\<exists>data. created_messages ?run = [data]
         \<and> identifier_updates ?run =
             [(\<lparr> q_id = w_new_message_id w data, q_environmentId = cmd_environmentId c \<rparr>,
               [(''identifier'', ident)])]"
      by blast
  qed
  have both: "w_storeContent w \<and> send_results ?run = [result]
      \<and> sr_id result = Some ident \<and> ident \<noteq> [] \<longrightarrow>
      (\<exists>data cc' compiled'. created_messages ?run = [data]
         \<and> compile_calls ?run = [cc'] \<and> w_compile w cc' = Inr compiled'
         \<and> message_updates ?run =
             [(\<lparr> q_id = w_new_message_id w data, q_environmentId = cmd_environmentId c \<rparr>,
               [(''subject'', ct_subject compiled'), (''content'', ct_content compiled')]),
              (\<lparr> q_id = w_new_message_id w data, q_environmentId = cmd_environmentId c \<rparr>,
               [(''identifier'', ident)])])"
  proof (intro impI)
    assume h: "w_storeContent w \<and> send_results ?run = [result]
      \<and> sr_id result = Some ident \<and> ident \<noteq> []"
    with sent obtain cc' compiled' where
      cc: "compile_calls ?run = [cc']" "w_compile w cc' = Inr compiled'"
      by auto
    have "message_updates ?run =
        [(?query, [(''subject'', ct_subject compiled'), (''content'', ct_content compiled')]),
         (?query, [(''identifier'', ident)])]"
      using h cc by (simp add: split content ident content_update_def identifier_update_def)
    with cc created show "\<exists>data cc' compiled'. created_messages ?run = [data]
         \<and> compile_calls ?run = [cc'] \<and> w_compile w cc' = Inr compiled'
         \<and> message_updates ?run =
             [(\<lparr> q_id = w_new_message_id w data, q_environmentId = cmd_environmentId c \<rparr>,
               [(''subject'', ct_subject compiled'), (''content'', ct_content compiled')]),
              (\<lparr> q_id = w_new_message_id w data, q_environmentId = cmd_environmentId c \<rparr>,
               [(''identifier'', ident)])]"
      by blast
  qed
  have s1: "send_results ?run \<noteq> [] \<longrightarrow> error_status_calls ?run = []"
    using sent by blast
  show ?thesis
    by (intro conjI; fact b0 b1 b2 b3 split e1 e2 c1 c2 c3 c4 i1 i2 i3 both s1)
qed simp_all

theorem message_record_lifecycle_witness:
  "w_storeContent sample_world
   \<and> send_results (fst (execute sample_world sample_command)) =
       [\<lparr> sr_id = Some ''prov-1'', sr_date = None \<rparr>]
   \<and> length (message_updates (fst (execute sample_world sample_command))) = 2
   \<and> map (\<lambda>(query, changes). map fst changes)
        (message_updates (fst (execute sample_world sample_command))) =
       [[''subject'', ''content''], [''identifier'']]
   \<and> content_updates (fst (execute world_not_storing sample_command)) = []"
proof -
  have store: "w_storeContent sample_world" and none: "\<not> w_storeContent world_not_storing"
    by (simp_all add: sample_defs)
  have sent: "send_results (fst (execute sample_world sample_command)) =
      [\<lparr> sr_id = Some ''prov-1'', sr_date = None \<rparr>]"
    by (simp add: pipeline_defs sample_defs)
  have id: "sr_id \<lparr> sr_id = Some ''prov-1'', sr_date = None \<rparr> = Some ''prov-1'' \<and> ''prov-1'' \<noteq> []"
    by simp
  note both = message_record_lifecycle
    [of sample_world sample_command undefined undefined undefined
        "\<lparr> sr_id = Some ''prov-1'', sr_date = None \<rparr>" "''prov-1''", THEN conjunct2, THEN conjunct2, THEN conjunct2, THEN conjunct2, THEN conjunct2, THEN conjunct2, THEN conjunct2, THEN conjunct2, THEN conjunct2, THEN conjunct2, THEN conjunct2, THEN conjunct2, THEN conjunct2, THEN conjunct1]
  have "w_storeContent sample_world
      \<and> send_results (fst (execute sample_world sample_command)) =
          [\<lparr> sr_id = Some ''prov-1'', sr_date = None \<rparr>]
      \<and> sr_id \<lparr> sr_id = Some ''prov-1'', sr_date = None \<rparr> = Some ''prov-1''
      \<and> ''prov-1'' \<noteq> []"
    using store sent id by simp
  with both obtain data and compiled' :: compiled_template where
    "message_updates (fst (execute sample_world sample_command)) =
       [(\<lparr> q_id = w_new_message_id sample_world data,
            q_environmentId = cmd_environmentId sample_command \<rparr>,
         [(''subject'', ct_subject compiled'), (''content'', ct_content compiled')]),
        (\<lparr> q_id = w_new_message_id sample_world data,
            q_environmentId = cmd_environmentId sample_command \<rparr>,
         [(''identifier'', ''prov-1'')])]"
    by blast
  then have two: "length (message_updates (fst (execute sample_world sample_command))) = 2
      \<and> map (\<lambda>(query, changes). map fst changes)
          (message_updates (fst (execute sample_world sample_command))) =
         [[''subject'', ''content''], [''identifier'']]"
    by simp
  note unstored = message_record_lifecycle
    [of world_not_storing sample_command undefined undefined undefined undefined undefined, THEN conjunct2, THEN conjunct2, THEN conjunct2, THEN conjunct2, THEN conjunct2, THEN conjunct2, THEN conjunct1]
  from unstored none
  have "content_updates (fst (execute world_not_storing sample_command)) = []"
    by (rule mp)
  with store sent two show ?thesis by simp
qed

subsection \<open>A subscriber without an address\<close>

text \<open>
  Claim C1, as stated, fails: the Message record is created (line 256) before the address
  is tested (line 376), and \<^verbatim>\<open>sendErrors\<close> refers to the record it was given. For a
  subscriber without an address and a payload without one, the pipeline creates a record.
\<close>

theorem no_address_counterexample:
  "w_subscribers world_without_address (cmd_subscriberId sample_command)
      (cmd_environmentId sample_command) = Some (sample_subscriber \<lparr> sub_email := None \<rparr>)
   \<and> pl_email (cmd_payload sample_command) = None
   \<and> snd (execute world_without_address sample_command) = Inr ()
   \<and> length (created_messages (fst (execute world_without_address sample_command))) = 1
   \<and> created_messages (fst (execute world_without_address sample_command)) \<noteq> []"
  by (simp add: pipeline_defs sample_defs)

text \<open>
  Claim C1, amended. For every execution where the resolved subscriber has no stored email
  address and the payload supplies none, and that comes to the test of the address (an
  integration is selected, the step and its template are present, the environment record
  exists if a reply address has to be derived, and the template compiles and inlines):
  the pipeline creates exactly one Message record, sends nothing, writes exactly one
  \<^verbatim>\<open>FAILED\<close> audit entry with the code \<^verbatim>\<open>SUBSCRIBER_NO_CHANNEL_DETAILS\<close>, which carries
  the identifier of that record, and returns normally.
\<close>

theorem missing_address_recorded:
  assumes "w_subscribers w (cmd_subscriberId c) (cmd_environmentId c) = Some s"
    and "\<not> truthy (sub_email s)" and "\<not> truthy (pl_email (cmd_payload c))"
    and "w_getIntegration w (integration_query c) = Inr (Some integ)"
    and "cmd_step c = Some st" and "step_template st = Some t"
    and "reply_active st \<longrightarrow> truthy (reply_callback_url st) \<longrightarrow>
           w_environments w (cmd_environmentId c) \<noteq> None"
    and "\<And>cc e. w_compile w cc \<noteq> Inl e" and "\<And>html e. w_inlineCss w html \<noteq> Inl e"
  shows "snd (execute w c) = Inr ()
    \<and> mail_sends (fst (execute w c)) = []
    \<and> (\<exists>data. created_messages (fst (execute w c)) = [data]
         \<and> entries_with FAILED SUBSCRIBER_NO_CHANNEL_DETAILS (fst (execute w c)) =
             [create_details c (Some (w_new_message_id w data)) SUBSCRIBER_NO_CHANNEL_DETAILS
                FAILED None])"
proof -
  let ?email = "or_else (pl_email (cmd_payload c)) (sub_email s)"
  have email: "\<not> truthy ?email"
    using assms(2,3) by (simp add: or_else_def)
  have run: "execute w c = execute_resolved w c s integ st t ?email"
    using assms(1,4,5,6) by (cases rule: execute_cases [of w c]) simp_all
  show ?thesis
  proof (rule execute_resolved_shape [of w c s integ st t ?email])
    fix pay
    assume shape: "execute_resolved w c s integ st t ?email =
       ([HandleTenantExecution (cmd_job c),
           SendSelectedIntegrationExecution (cmd_job c) integ]
          @ fst (getOverrideLayoutId w c)
          @ [MessageCreate (new_message c t integ ?email (merged_overrides c integ))]
          @ fst (execute_created w c s integ st ?email (merged_overrides c integ) pay
                   (stored_message w (new_message c t integ ?email (merged_overrides c integ)))),
        snd (execute_created w c s integ st ?email (merged_overrides c integ) pay
               (stored_message w (new_message c t integ ?email (merged_overrides c integ)))))"
    note created = execute_created_no_address [OF email assms(5) assms(7) assms(8) assms(9),
        of s integ "merged_overrides c integ" pay
           "stored_message w (new_message c t integ ?email (merged_overrides c integ))"]
    show ?thesis
      by (simp add: run shape created)
  qed
qed

theorem missing_address_recorded_witness:
  "snd (execute world_without_address sample_command) = Inr ()
   \<and> mail_sends (fst (execute world_without_address sample_command)) = []
   \<and> length (created_messages (fst (execute world_without_address sample_command))) = 1
   \<and> map (\<lambda>entry. (ed_messageId entry, ed_status entry))
        (entries_with FAILED SUBSCRIBER_NO_CHANNEL_DETAILS
           (fst (execute world_without_address sample_command))) = [(Some ''msg-1'', FAILED)]"
proof -
  have "snd (execute world_without_address sample_command) = Inr ()
    \<and> mail_sends (fst (execute world_without_address sample_command)) = []
    \<and> (\<exists>data. created_messages (fst (execute world_without_address sample_command)) = [data]
         \<and> entries_with FAILED SUBSCRIBER_NO_CHANNEL_DETAILS
              (fst (execute world_without_address sample_command)) =
             [create_details sample_command (Some (w_new_message_id world_without_address data))
                SUBSCRIBER_NO_CHANNEL_DETAILS FAILED None])"
    by (rule missing_address_recorded
          [of world_without_address sample_command "sample_subscriber \<lparr> sub_email := None \<rparr>"
              sample_integration sample_step sample_template])
       (simp_all add: sample_defs integration_query_def truthy_def reply_active_def)
  then show ?thesis
    by (auto simp: sample_defs)
qed

subsection \<open>A layout override that does not resolve\<close>

text \<open>
  Claim C2, as stated, fails: the entry that \<^verbatim>\<open>getOverrideLayoutId\<close> writes for an
  unresolved layout name has the status \<^verbatim>\<open>FAILED\<close> (line 606), not \<^verbatim>\<open>WARNING\<close>.
\<close>

theorem unresolved_layout_counterexample:
  "ov_layoutIdentifier (cmd_overrides command_with_layout) = Some ''fancy''
   \<and> w_layouts sample_world (cmd_environmentId command_with_layout) ''fancy'' = None
   \<and> entries_with WARNING LAYOUT_NOT_FOUND (fst (execute sample_world command_with_layout)) = []
   \<and> map ed_status
        (entries_with_detail LAYOUT_NOT_FOUND (fst (execute sample_world command_with_layout))) =
       [FAILED]"
  by (simp add: pipeline_defs sample_defs projections)

text \<open>
  Claim C2, amended. For every execution that comes to the resolution of the layout (the
  subscriber is found, an integration is selected, the step and its template are present)
  where a layout-override identifier is supplied but no layout with that identifier exists
  in the environment: the pipeline writes exactly one audit entry with the code
  \<^verbatim>\<open>LAYOUT_NOT_FOUND\<close>, of status \<^verbatim>\<open>FAILED\<close>, with the identifier as raw detail,
  and continues without aborting: it creates the Message record, every compilation it
  requests is given the step's default layout, and an execution that returns normally has
  requested exactly one.
\<close>

theorem unresolved_layout_recorded:
  assumes "w_subscribers w (cmd_subscriberId c) (cmd_environmentId c) = Some s"
    and "w_getIntegration w (integration_query c) = Inr (Some integ)"
    and "cmd_step c = Some st" and "step_template st = Some t"
    and "ov_layoutIdentifier (cmd_overrides c) = Some ident" and "ident \<noteq> []"
    and "w_layouts w (cmd_environmentId c) ident = None"
  shows "entries_with_detail LAYOUT_NOT_FOUND (fst (execute w c)) =
      [create_details c None LAYOUT_NOT_FOUND FAILED (Some (RawLayoutIdentifier ident))]
    \<and> length (created_messages (fst (execute w c))) = 1
    \<and> set (compiled_layouts (fst (execute w c))) \<subseteq> {tpl_layoutId t}
    \<and> (snd (execute w c) = Inr () \<longrightarrow> compiled_layouts (fst (execute w c)) = [tpl_layoutId t])"
proof -
  let ?email = "or_else (pl_email (cmd_payload c)) (sub_email s)"
  have run: "execute w c = execute_resolved w c s integ st t ?email"
    using assms(1-4) by (cases rule: execute_cases [of w c]) simp_all
  have layout: "getOverrideLayoutId w c =
      ([log_add c None LAYOUT_NOT_FOUND FAILED (Some (RawLayoutIdentifier ident))], None)"
    using assms(5-7) by (simp add: getOverrideLayoutId_def truthy_def)
  show ?thesis
  proof (rule execute_resolved_shape [of w c s integ st t ?email])
    fix pay
    let ?created = "execute_created w c s integ st ?email (merged_overrides c integ) pay
        (stored_message w (new_message c t integ ?email (merged_overrides c integ)))"
    assume shape: "execute_resolved w c s integ st t ?email =
       ([HandleTenantExecution (cmd_job c),
           SendSelectedIntegrationExecution (cmd_job c) integ]
          @ fst (getOverrideLayoutId w c)
          @ [MessageCreate (new_message c t integ ?email (merged_overrides c integ))]
          @ fst ?created, snd ?created)"
      and "tp_layoutId pay =
        (case snd (getOverrideLayoutId w c) of None \<Rightarrow> tpl_layoutId t | Some l \<Rightarrow> Some l)"
    then have default: "tp_layoutId pay = tpl_layoutId t"
      by (simp add: layout)
    have calls: "set (compiled_layouts (fst ?created)) \<subseteq> {tpl_layoutId t}"
      using execute_created_compile_calls(1)
        [of w c s integ st ?email "merged_overrides c integ" pay
            "stored_message w (new_message c t integ ?email (merged_overrides c integ))"]
      by (simp add: compiled_layouts_def default)
    have one: "snd ?created = Inr () \<Longrightarrow> compiled_layouts (fst ?created) = [tpl_layoutId t]"
    proof -
      assume "snd ?created = Inr ()"
      then have "length (compiled_layouts (fst ?created)) = Suc 0"
        using execute_created_compile_calls(3)
          [of w c s integ st ?email "merged_overrides c integ" pay
              "stored_message w (new_message c t integ ?email (merged_overrides c integ))"]
        by (simp add: compiled_layouts_def)
      with calls show ?thesis
        by (cases "compiled_layouts (fst ?created)") auto
    qed
    show ?thesis
      using calls one unfolding compiled_layouts_def by (simp add: run shape layout)
  qed
qed

theorem unresolved_layout_recorded_witness:
  "map (\<lambda>entry. (ed_status entry, ed_raw entry))
     (entries_with_detail LAYOUT_NOT_FOUND (fst (execute sample_world command_with_layout))) =
     [(FAILED, Some (RawLayoutIdentifier ''fancy''))]
   \<and> length (created_messages (fst (execute sample_world command_with_layout))) = 1
   \<and> snd (execute sample_world command_with_layout) = Inr ()
   \<and> compiled_layouts (fst (execute sample_world command_with_layout)) = [Some ''layout-default'']"
proof -
  have returns: "snd (execute sample_world command_with_layout) = Inr ()"
    by (simp add: pipeline_defs sample_defs)
  have "entries_with_detail LAYOUT_NOT_FOUND (fst (execute sample_world command_with_layout)) =
      [create_details command_with_layout None LAYOUT_NOT_FOUND FAILED
         (Some (RawLayoutIdentifier ''fancy''))]
    \<and> length (created_messages (fst (execute sample_world command_with_layout))) = 1
    \<and> set (compiled_layouts (fst (execute sample_world command_with_layout)))
        \<subseteq> {tpl_layoutId sample_template}
    \<and> (snd (execute sample_world command_with_layout) = Inr () \<longrightarrow>
         compiled_layouts (fst (execute sample_world command_with_layout)) =
           [tpl_layoutId sample_template])"
    by (rule unresolved_layout_recorded
          [of sample_world command_with_layout sample_subscriber sample_integration
              sample_step sample_template "''fancy''"])
       (simp_all add: sample_defs integration_query_def)
  with returns show ?thesis
    by (simp add: sample_template_def)
qed

subsection \<open>The preconditions of the reply address\<close>

lemma execute_warned:
  assumes "w_subscribers w (cmd_subscriberId c) (cmd_environmentId c) = Some s"
    and "w_getIntegration w (integration_query c) = Inr (Some integ)"
    and "cmd_step c = Some st" and "step_template st = Some t"
    and "reply_active st"
    and warns: "\<And>m. getReplyTo w c m = ([log_add c (Some m) code WARNING None], Inr None)"
  shows "warned_without_reply w c code"
proof -
  let ?email = "or_else (pl_email (cmd_payload c)) (sub_email s)"
  let ?msg = "stored_message w (new_message c t integ ?email (merged_overrides c integ))"
  have run: "execute w c = execute_resolved w c s integ st t ?email"
    using assms(1-4) by (cases rule: execute_cases [of w c]) simp_all
  have reply: "reply_resolution w c st ?msg =
      ([log_add c (Some (msg_id ?msg)) code WARNING None], Inr None)"
    using assms(5) warns by (simp add: reply_resolution_def)
  show ?thesis
  proof (rule execute_resolved_shape [of w c s integ st t ?email])
    fix pay
    let ?created = "execute_created w c s integ st ?email (merged_overrides c integ) pay ?msg"
    assume shape: "execute_resolved w c s integ st t ?email =
       ([HandleTenantExecution (cmd_job c),
           SendSelectedIntegrationExecution (cmd_job c) integ]
          @ fst (getOverrideLayoutId w c)
          @ [MessageCreate (new_message c t integ ?email (merged_overrides c integ))]
          @ fst ?created, snd ?created)"
      and none: "sv_reply_to_address (cv_step (tp_payload pay)) = None"
    have warnings: "entries_with_status WARNING (fst ?created) =
        [create_details c (Some (msg_id ?msg)) code WARNING None]"
      by (simp add: execute_created_warnings reply)
    have calls: "compile_calls (fst ?created) = [compile_command_of c (with_reply_to pay None)]"
      by (rule execute_created_compiles) (simp add: reply)
    have same: "with_reply_to pay None = pay"
      by (simp add: with_reply_to_def truthy_def)
    show ?thesis
      by (simp add: warned_without_reply_def run shape warnings calls same none
          compiled_reply_addresses_def)
  qed
qed

lemma execute_environment_missing:
  assumes "w_subscribers w (cmd_subscriberId c) (cmd_environmentId c) = Some s"
    and "w_getIntegration w (integration_query c) = Inr (Some integ)"
    and "cmd_step c = Some st" and "step_template st = Some t"
    and "reply_active st" and "truthy (reply_callback_url st)"
    and "w_environments w (cmd_environmentId c) = None"
  shows "snd (execute w c) =
      Inl (PlatformException (''Environment '' @ cmd_environmentId c @ '' is not found''))
    \<and> compile_calls (fst (execute w c)) = [] \<and> mail_sends (fst (execute w c)) = []"
proof -
  let ?email = "or_else (pl_email (cmd_payload c)) (sub_email s)"
  let ?msg = "stored_message w (new_message c t integ ?email (merged_overrides c integ))"
  let ?err = "PlatformException (''Environment '' @ cmd_environmentId c @ '' is not found'')"
  have run: "execute w c = execute_resolved w c s integ st t ?email"
    using assms(1-4) by (cases rule: execute_cases [of w c]) simp_all
  have reply: "reply_resolution w c st ?msg = ([], Inl ?err)"
    using assms(5) getReplyTo_no_environment [OF assms(3) assms(6) assms(7)]
    by (simp add: reply_resolution_def)
  show ?thesis
  proof (rule execute_resolved_shape [of w c s integ st t ?email])
    fix pay
    let ?created = "execute_created w c s integ st ?email (merged_overrides c integ) pay ?msg"
    assume shape: "execute_resolved w c s integ st t ?email =
       ([HandleTenantExecution (cmd_job c),
           SendSelectedIntegrationExecution (cmd_job c) integ]
          @ fst (getOverrideLayoutId w c)
          @ [MessageCreate (new_message c t integ ?email (merged_overrides c integ))]
          @ fst ?created, snd ?created)"
    have "?created = ([], Inl ?err)"
      using execute_created_raised [of w c st ?msg ?err s integ ?email "merged_overrides c integ" pay]
      by (simp add: reply)
    then show ?thesis
      by (simp add: run shape)
  qed
qed

text \<open>
  Claim C8, as stated, fails: the environment is looked up only after the test of the
  callback URL (lines 385-408). With reply callbacks enabled, no callback URL and no
  environment record, \<^verbatim>\<open>getReplyTo\<close> returns \<^verbatim>\<open>null\<close> before the lookup, and the
  pipeline returns normally, with the warning for the missing URL.
\<close>

theorem missing_environment_counterexample:
  "(case cmd_step command_reply_without_url of None \<Rightarrow> False | Some st \<Rightarrow> reply_active st)
   \<and> w_environments world_without_environment (cmd_environmentId command_reply_without_url)
       = None
   \<and> snd (execute world_without_environment command_reply_without_url) = Inr ()
   \<and> map ed_detail
        (entries_with_status WARNING
           (fst (execute world_without_environment command_reply_without_url))) =
       [REPLY_CALLBACK_MISSING_REPLAY_CALLBACK_URL]"
  by (simp add: pipeline_defs sample_defs command_reply_without_url_def
      world_without_environment_def reply_callback_url_def projections)

text \<open>
  Claim C8, amended. For every execution that comes to the reply address (the subscriber is
  found, an integration is selected, the step and its template are present) with reply
  callbacks enabled, the preconditions are tested in this order. When the step has no
  callback URL, \<^verbatim>\<open>getReplyTo\<close> writes one \<^verbatim>\<open>WARNING\<close> entry and returns \<^verbatim>\<open>null\<close>,
  whatever the environment is. When the step has a callback URL and the environment record
  is missing, \<^verbatim>\<open>getReplyTo\<close> raises and the error leaves the pipeline, before any
  compilation or send. When the step has a callback URL and the environment has neither an
  MX record configured nor an inbound-parse domain, or lacks exactly one of the two,
  \<^verbatim>\<open>getReplyTo\<close> writes one \<^verbatim>\<open>WARNING\<close> entry and returns \<^verbatim>\<open>null\<close>. The code of the
  entry is a different one in each of the four warning cases, and in each of them the
  pipeline does not fail there: that entry is its only warning and it goes on to compile,
  without a reply address.
\<close>

theorem reply_preconditions_recorded:
  assumes "w_subscribers w (cmd_subscriberId c) (cmd_environmentId c) = Some s"
    and "w_getIntegration w (integration_query c) = Inr (Some integ)"
    and "cmd_step c = Some st" and "step_template st = Some t"
    and "reply_active st"
  shows "(\<not> truthy (reply_callback_url st) \<longrightarrow>
        warns_and_returns_null w c m REPLY_CALLBACK_MISSING_REPLAY_CALLBACK_URL
        \<and> warned_without_reply w c REPLY_CALLBACK_MISSING_REPLAY_CALLBACK_URL)
    \<and> (truthy (reply_callback_url st) \<and> w_environments w (cmd_environmentId c) = None \<longrightarrow>
        getReplyTo w c m =
          ([], Inl (PlatformException (''Environment '' @ cmd_environmentId c @ '' is not found'')))
        \<and> snd (execute w c) =
            Inl (PlatformException (''Environment '' @ cmd_environmentId c @ '' is not found''))
        \<and> compile_calls (fst (execute w c)) = [] \<and> mail_sends (fst (execute w c)) = [])
    \<and> (truthy (reply_callback_url st)
        \<and> w_environments w (cmd_environmentId c) = Some environment
        \<and> \<not> mx_configured environment \<and> \<not> truthy (inbound_parse_domain environment) \<longrightarrow>
        warns_and_returns_null w c m REPLY_CALLBACK_NOT_CONFIGURATION
        \<and> warned_without_reply w c REPLY_CALLBACK_NOT_CONFIGURATION)
    \<and> (truthy (reply_callback_url st)
        \<and> w_environments w (cmd_environmentId c) = Some environment
        \<and> \<not> mx_configured environment \<and> truthy (inbound_parse_domain environment) \<longrightarrow>
        warns_and_returns_null w c m REPLY_CALLBACK_MISSING_MX_RECORD_CONFIGURATION
        \<and> warned_without_reply w c REPLY_CALLBACK_MISSING_MX_RECORD_CONFIGURATION)
    \<and> (truthy (reply_callback_url st)
        \<and> w_environments w (cmd_environmentId c) = Some environment
        \<and> mx_configured environment \<and> \<not> truthy (inbound_parse_domain environment) \<longrightarrow>
        warns_and_returns_null w c m REPLY_CALLBACK_MISSING_MX_ROUTE_DOMAIN_CONFIGURATION
        \<and> warned_without_reply w c REPLY_CALLBACK_MISSING_MX_ROUTE_DOMAIN_CONFIGURATION)
    \<and> distinct [REPLY_CALLBACK_MISSING_REPLAY_CALLBACK_URL, REPLY_CALLBACK_NOT_CONFIGURATION,
         REPLY_CALLBACK_MISSING_MX_RECORD_CONFIGURATION,
         REPLY_CALLBACK_MISSING_MX_ROUTE_DOMAIN_CONFIGURATION]"
proof -
  note warned = execute_warned [OF assms]
  have url: "\<not> truthy (reply_callback_url st) \<Longrightarrow>
      warns_and_returns_null w c m REPLY_CALLBACK_MISSING_REPLAY_CALLBACK_URL
      \<and> warned_without_reply w c REPLY_CALLBACK_MISSING_REPLAY_CALLBACK_URL"
    using warned [of REPLY_CALLBACK_MISSING_REPLAY_CALLBACK_URL] getReplyTo_no_url [OF assms(3)]
    by (simp add: warns_and_returns_null_def)
  have missing: "truthy (reply_callback_url st) \<Longrightarrow> w_environments w (cmd_environmentId c) = None \<Longrightarrow>
      getReplyTo w c m =
          ([], Inl (PlatformException (''Environment '' @ cmd_environmentId c @ '' is not found'')))
      \<and> snd (execute w c) =
            Inl (PlatformException (''Environment '' @ cmd_environmentId c @ '' is not found''))
      \<and> compile_calls (fst (execute w c)) = [] \<and> mail_sends (fst (execute w c)) = []"
    using execute_environment_missing [OF assms] getReplyTo_no_environment [OF assms(3)]
    by simp
  have dns: "truthy (reply_callback_url st) \<Longrightarrow>
      w_environments w (cmd_environmentId c) = Some environment \<Longrightarrow>
      \<not> (mx_configured environment \<and> truthy (inbound_parse_domain environment)) \<Longrightarrow>
      warns_and_returns_null w c m (reply_warning_detail environment)
      \<and> warned_without_reply w c (reply_warning_detail environment)"
    using warned [of "reply_warning_detail environment"]
      getReplyTo_unconfigured [OF assms(3), of w environment]
    by (simp add: warns_and_returns_null_def)
  show ?thesis
    using url missing dns by (auto simp: reply_warning_detail_def)
qed

theorem reply_preconditions_recorded_witness:
  "warned_without_reply sample_world command_reply_without_url
     REPLY_CALLBACK_MISSING_REPLAY_CALLBACK_URL
   \<and> snd (execute world_without_environment command_reply) =
       Inl (PlatformException ''Environment env456 is not found'')
   \<and> warned_without_reply (world_with_dns None) command_reply REPLY_CALLBACK_NOT_CONFIGURATION
   \<and> warned_without_reply (world_with_dns (Some dns_without_mx)) command_reply
       REPLY_CALLBACK_MISSING_MX_RECORD_CONFIGURATION
   \<and> warned_without_reply (world_with_dns (Some dns_without_domain)) command_reply
       REPLY_CALLBACK_MISSING_MX_ROUTE_DOMAIN_CONFIGURATION"
proof -
  let ?no_url = "sample_step \<lparr> step_replyCallback :=
      Some \<lparr> rc_active = Some True, rc_url = None \<rparr> \<rparr>"
  let ?url = "sample_step \<lparr> step_replyCallback :=
      Some \<lparr> rc_active = Some True, rc_url = Some ''https://x.com/reply'' \<rparr> \<rparr>"
  note defs = sample_defs command_reply_without_url_def command_reply_def
    world_without_environment_def world_with_dns_def dns_without_mx_def dns_without_domain_def
    integration_query_def reply_active_def reply_callback_url_def truthy_def
    mx_configured_def inbound_parse_domain_def
  have a: "warned_without_reply sample_world command_reply_without_url
      REPLY_CALLBACK_MISSING_REPLAY_CALLBACK_URL"
    using reply_preconditions_recorded
      [of sample_world command_reply_without_url sample_subscriber sample_integration ?no_url
          sample_template "''m''" sample_environment]
    by (simp add: defs)
  have b: "snd (execute world_without_environment command_reply) =
      Inl (PlatformException ''Environment env456 is not found'')"
    using reply_preconditions_recorded
      [of world_without_environment command_reply sample_subscriber sample_integration ?url
          sample_template "''m''" sample_environment]
    by (simp add: defs)
  have c: "warned_without_reply (world_with_dns None) command_reply
      REPLY_CALLBACK_NOT_CONFIGURATION"
    using reply_preconditions_recorded
      [of "world_with_dns None" command_reply sample_subscriber sample_integration ?url
          sample_template "''m''" "sample_environment \<lparr> env_dns := None \<rparr>"]
    by (simp add: defs)
  have d: "warned_without_reply (world_with_dns (Some dns_without_mx)) command_reply
      REPLY_CALLBACK_MISSING_MX_RECORD_CONFIGURATION"
    using reply_preconditions_recorded
      [of "world_with_dns (Some dns_without_mx)" command_reply sample_subscriber
          sample_integration ?url sample_template "''m''"
          "sample_environment \<lparr> env_dns := Some dns_without_mx \<rparr>"]
    by (simp add: defs)
  have e: "warned_without_reply (world_with_dns (Some dns_without_domain)) command_reply
      REPLY_CALLBACK_MISSING_MX_ROUTE_DOMAIN_CONFIGURATION"
    using reply_preconditions_recorded
      [of "world_with_dns (Some dns_without_domain)" command_reply sample_subscriber
          sample_integration ?url sample_template "''m''"
          "sample_environment \<lparr> env_dns := Some dns_without_domain \<rparr>"]
    by (simp add: defs)
  from a b c d e show ?thesis by simp
qed


end
